theory Spec2Isabelle
  imports Complex_Main "HOL-Library.Word" "HOL-Library.AList"
begin

section \<open>Build configuration and errors\<close>

text \<open>
  The header \<^verbatim>\<open>include/numerics/petsc_vector.h\<close> is compiled under preprocessor
  switches. \<open>ndebug\<close> stands for \<^verbatim>\<open>NDEBUG\<close> being defined (an optimized build, in
  which \<^verbatim>\<open>libmesh_assert\<close> expands to nothing), \<open>have_mpi\<close> for
  \<^verbatim>\<open>LIBMESH_HAVE_MPI\<close>. The macro \<^verbatim>\<open>parallel_object_only()\<close>, with which the operations
  that all processes make together begin, is defined outside this header:
  \<open>parallel_only\<close> says whether the build expands it to its check (in libMesh the builds
  with assertions do) or to nothing.
\<close>

record config =
  ndebug :: bool
  have_mpi :: bool
  parallel_only :: bool

datatype ParallelType = AUTOMATIC | SERIAL | PARALLEL | GHOSTED

datatype InsertMode = INSERT_VALUES | ADD_VALUES

datatype ScatterMode = SCATTER_FORWARD | SCATTER_REVERSE

datatype VecType = VECSEQ | VECMPI | VECSHARED

text \<open>
  A \<^verbatim>\<open>Vec\<close> is an opaque handle of the backend: the null handle, the handle of a vector
  object, or the handle of the local form of a ghosted vector object (its owned entries
  followed by its ghost entries).
\<close>

datatype Vec = NullVec | VecObj nat | LocalForm nat

text \<open>
  \<^verbatim>\<open>numeric_index_type\<close> is declared outside this header; the header only requires
  it to have the size of \<^verbatim>\<open>PetscInt\<close>. It is an unsigned integer of some width,
  modelled as \<open>'a word\<close> for an arbitrary width \<open>'a\<close>; the types below take the
  index type as their parameter \<open>'i\<close>, and every function instantiates it with
  \<open>'a word\<close>. The backend calls the header makes, with their arguments, and, as
  \<open>ParallelObjectOnly\<close>, the exchange between the processes that the check of
  \<^verbatim>\<open>parallel_object_only()\<close> makes:
\<close>

datatype 'i petsc_op =
    VecCreateSeq 'i
  | VecCreateMPI 'i 'i
  | VecCreateGhost 'i 'i 'i "'i list"
  | VecSetFromOptions Vec
  | VecDuplicate Vec
  | VecDestroy Vec
  | VecAssemblyBegin Vec
  | VecAssemblyEnd Vec
  | VecGhostUpdateBegin Vec InsertMode ScatterMode
  | VecGhostUpdateEnd Vec InsertMode ScatterMode
  | VecSet Vec real
  | VecGhostGetLocalForm Vec
  | VecGhostRestoreLocalForm Vec
  | VecGetArray Vec
  | VecGetArrayRead Vec
  | VecRestoreArray Vec
  | VecRestoreArrayRead Vec
  | VecMin Vec
  | VecMax Vec
  | VecGetSize Vec
  | VecGetLocalSize Vec
  | VecGetOwnershipRange Vec
  | VecGetType Vec
  | VecGetLocalToGlobalMapping Vec
  | ParallelObjectOnly

datatype 'i error =
    AssertionFailure
  | ParallelOnlyFailure
  | UnsupportedType ParallelType
  | NoIndex 'i 'i 'i "'i set"
  | PetscError "'i petsc_op"
  | UndefinedBehavior

definition bindE :: "'e + 'x \<Rightarrow> ('x \<Rightarrow> 'e + 'y) \<Rightarrow> 'e + 'y" where
  "bindE m f = (case m of Inl e \<Rightarrow> Inl e | Inr x \<Rightarrow> f x)"

definition libmesh_assert :: "config \<Rightarrow> bool \<Rightarrow> 'a error + unit" where
  "libmesh_assert cfg c = (if ndebug cfg \<or> c then Inr () else Inl AssertionFailure)"

section \<open>The backend\<close>

text \<open>
  The PETSc library is an external collaborator. The model keeps what the header reads
  back from it: for every live vector object its global size, the ownership range of this
  process, its ghost indices (\<open>None\<close> for a vector created without ghost padding) and its
  PETSc type. \<open>calls\<close> is the log of the state-changing calls and of the cross-process
  checks made so far, oldest first.
  Two fields stand for what this process cannot know: \<open>fails\<close> says which calls return a
  nonzero error code, and \<open>layout\<close> gives the first index the backend assigns to this
  process for a parallel vector of given local and global size.
\<close>

record 'i vec_obj =
  glob_size :: 'i
  own_first :: 'i
  own_last :: 'i
  ghosts :: "'i list option"
  vtype :: VecType

record 'i petsc =
  objs :: "nat \<Rightarrow> 'i vec_obj option"
  fresh :: nat
  calls :: "'i petsc_op list"
  fails :: "'i petsc_op \<Rightarrow> bool"
  layout :: "'i \<Rightarrow> 'i \<Rightarrow> 'i"

text \<open>A call followed by \<^verbatim>\<open>LIBMESH_CHKERR\<close> or \<^verbatim>\<open>CHKERRABORT\<close>.\<close>

definition petsc :: "'a::len word petsc_op \<Rightarrow> 'a word petsc \<Rightarrow> 'a word error + 'a word petsc" where
  "petsc c b = (if fails b c then Inl (PetscError c) else Inr (b\<lparr>calls := calls b @ [c]\<rparr>))"

text \<open>
  Modelled from the spec: the body of the macro \<^verbatim>\<open>parallel_object_only()\<close> is missing,
  and the specification does not name the macro. In the specification (section 5 and
  glossary) a collective operation is a call that every process sharing the vector must
  issue, in the same relative order. The macro stands at the head of the operations that
  are meant to be made by all processes together and checks just that. In a build that
  has the check (\<open>parallel_only\<close>) the processes exchange data, which the log records as
  \<open>ParallelObjectOnly\<close>, and the check fails on a process that finds the others
  elsewhere; in a build without it nothing happens.
\<close>

definition parallel_object_only :: "config \<Rightarrow> 'a::len word petsc \<Rightarrow> 'a word error + 'a word petsc" where
  "parallel_object_only cfg b =
     (if \<not> parallel_only cfg then Inr b
      else if fails b ParallelObjectOnly then Inl ParallelOnlyFailure
      else Inr (b\<lparr>calls := calls b @ [ParallelObjectOnly]\<rparr>))"

fun created_obj :: "'a::len word petsc \<Rightarrow> 'a word petsc_op \<Rightarrow> 'a word vec_obj option" where
  "created_obj b (VecCreateSeq n) =
     Some \<lparr>glob_size = n, own_first = 0, own_last = n, ghosts = None, vtype = VECSEQ\<rparr>"
| "created_obj b (VecCreateMPI n_local n) =
     Some \<lparr>glob_size = n, own_first = layout b n_local n,
           own_last = layout b n_local n + n_local, ghosts = None, vtype = VECMPI\<rparr>"
| "created_obj b (VecCreateGhost n_local n n_ghost gs) =
     Some \<lparr>glob_size = n, own_first = layout b n_local n,
           own_last = layout b n_local n + n_local, ghosts = Some gs, vtype = VECMPI\<rparr>"
| "created_obj b (VecDuplicate (VecObj h)) = objs b h"
| "created_obj b _ = None"

definition petsc_create :: "'a::len word petsc_op \<Rightarrow> 'a word petsc \<Rightarrow> 'a word error + (Vec \<times> 'a word petsc)" where
  "petsc_create c b =
     bindE (petsc c b) (\<lambda>b'.
       case created_obj b c of
         None \<Rightarrow> Inl (PetscError c)
       | Some obj \<Rightarrow>
           Inr (VecObj (fresh b'),
                b'\<lparr>objs := (objs b')(fresh b' \<mapsto> obj), fresh := Suc (fresh b')\<rparr>))"

definition petsc_destroy :: "Vec \<Rightarrow> 'a::len word petsc \<Rightarrow> 'a word error + 'a word petsc" where
  "petsc_destroy h b =
     bindE (petsc (VecDestroy h) b) (\<lambda>b'.
       case h of VecObj k \<Rightarrow> Inr (b'\<lparr>objs := (objs b')(k := None)\<rparr>) | _ \<Rightarrow> Inr b')"

text \<open>Queries read the backend state; they are not entered into the log.\<close>

definition petsc_query :: "'a::len word petsc_op \<Rightarrow> Vec \<Rightarrow> 'a word petsc \<Rightarrow> 'a word error + 'a word vec_obj" where
  "petsc_query c h b =
     (if fails b c then Inl (PetscError c)
      else case h of
             VecObj k \<Rightarrow> (case objs b k of None \<Rightarrow> Inl (PetscError c) | Some obj \<Rightarrow> Inr obj)
           | _ \<Rightarrow> Inl (PetscError c))"

definition petsc_ownership_range :: "Vec \<Rightarrow> 'a::len word petsc \<Rightarrow> 'a word error + ('a word \<times> 'a word)" where
  "petsc_ownership_range h b =
     bindE (petsc_query (VecGetOwnershipRange h) h b) (\<lambda>obj. Inr (own_first obj, own_last obj))"

definition petsc_size :: "Vec \<Rightarrow> 'a::len word petsc \<Rightarrow> 'a word error + 'a word" where
  "petsc_size h b = bindE (petsc_query (VecGetSize h) h b) (\<lambda>obj. Inr (glob_size obj))"

definition petsc_local_size :: "Vec \<Rightarrow> 'a::len word petsc \<Rightarrow> 'a word error + 'a word" where
  "petsc_local_size h b =
     bindE (petsc_query (VecGetLocalSize h) h b) (\<lambda>obj. Inr (own_last obj - own_first obj))"

definition local_form_of :: "Vec \<Rightarrow> Vec" where
  "local_form_of h = (case h of VecObj k \<Rightarrow> LocalForm k | _ \<Rightarrow> NullVec)"

section \<open>The vector object\<close>

text \<open>
  The members of \<^verbatim>\<open>PetscVector<T>\<close>, with the three members it inherits from
  \<^verbatim>\<open>NumericVector<T>\<close> first (\<^verbatim>\<open>_is_closed\<close>, \<^verbatim>\<open>_is_initialized\<close>, \<^verbatim>\<open>_type\<close>; the getters
  \<^verbatim>\<open>closed()\<close>, \<^verbatim>\<open>initialized()\<close> and \<^verbatim>\<open>type()\<close> read them). A pointer into the raw
  array of a backend vector is modelled by the handle of that vector, \<open>NullVec\<close> for the
  null pointer. \<^verbatim>\<open>_global_to_local_map\<close> is an association list with one pair per key.
\<close>

record 'i PetscVector =
  is_closed :: bool
  is_initialized :: bool
  ptype :: ParallelType
  vec :: Vec
  array_is_present :: bool
  first_cached :: 'i
  last_cached :: 'i
  local_size_cached :: 'i
  local_form :: Vec
  read_only_values :: Vec
  values_rw :: Vec
  global_to_local_map :: "('i \<times> 'i) list"
  destroy_vec_on_exit :: bool
  values_manually_retrieved :: bool
  values_read_only :: bool

type_synonym 'i state = "'i petsc \<times> 'i PetscVector"

text \<open>
  Modelled from the spec: \<^verbatim>\<open>_restore_array()\<close> is declared in the header (line 619); its
  body is in the implementation file, which is missing. The specification's
  \<^verbatim>\<open>release()\<close> "returns the backend array (and local form, if any) to the backend,
  clears presence"; the local form exists for Ghosted vectors, whose array is that of the
  local form.
\<close>

definition priv_restore_array :: "'a::len word state \<Rightarrow> 'a word error + 'a word state" where
  "priv_restore_array s =
     (case s of (b, v) \<Rightarrow>
        if \<not> array_is_present v then Inr (b, v)
        else
          let a = (if ptype v = GHOSTED then local_form v else vec v) in
          bindE (petsc (if values_read_only v then VecRestoreArrayRead a else VecRestoreArray a) b) (\<lambda>b1.
          bindE (if ptype v = GHOSTED then petsc (VecGhostRestoreLocalForm (vec v)) b1 else Inr b1) (\<lambda>b2.
          Inr (b2, v\<lparr>array_is_present := False\<rparr>))))"

text \<open>
  Modelled from the spec: \<^verbatim>\<open>_get_array(read_only)\<close> is declared in the header (line 613);
  its body is in the missing implementation file. The specification's
  \<^verbatim>\<open>acquire(readOnly)\<close>: "if no view is present, take the cache's lock, fetch the backend array (and, for Ghosted storage, also
  fetch the backend local form exposing ghost slots appended after owned entries), record
  first/last/local_size, mark present, release the lock. If a view is already present,
  this is a no-op". \<^verbatim>\<open>_local_size\<close> is the "size of the local values from
  \<^verbatim>\<open>_get_array()\<close>" (header): owned entries, plus the ghost entries of a Ghosted vector.
\<close>

definition priv_get_array :: "bool \<Rightarrow> 'a::len word state \<Rightarrow> 'a word error + 'a word state" where
  "priv_get_array read_only s =
     (case s of (b, v) \<Rightarrow>
        if array_is_present v then Inr (b, v)
        else
          bindE (petsc_query (VecGetOwnershipRange (vec v)) (vec v) b) (\<lambda>obj.
          bindE (if ptype v = GHOSTED then petsc (VecGhostGetLocalForm (vec v)) b else Inr b) (\<lambda>b1.
          let lf = (if ptype v = GHOSTED then local_form_of (vec v) else local_form v);
              a = (if ptype v = GHOSTED then lf else vec v) in
          bindE (petsc (if read_only then VecGetArrayRead a else VecGetArray a) b1) (\<lambda>b2.
          Inr (b2, v\<lparr>array_is_present := True,
                     first_cached := own_first obj,
                     last_cached := own_last obj,
                     local_size_cached := (own_last obj - own_first obj) +
                        (if ptype v = GHOSTED
                         then (case ghosts obj of None \<Rightarrow> 0 | Some gs \<Rightarrow> of_nat (length gs))
                         else 0),
                     local_form := lf,
                     read_only_values := (if read_only then a else read_only_values v),
                     values_rw := (if read_only then values_rw v else a),
                     values_read_only := read_only\<rparr>)))))"

section \<open>Lifecycle operations\<close>

text \<open>\<^verbatim>\<open>zero()\<close>, header lines 1063 to 1096.\<close>

definition zero_vec :: "config \<Rightarrow> 'a::len word state \<Rightarrow> 'a word error + 'a word state" where
  "zero_vec cfg s =
     (case s of (b, v) \<Rightarrow>
        bindE (parallel_object_only cfg b) (\<lambda>b0.
        bindE (libmesh_assert cfg (is_closed v)) (\<lambda>_.
        bindE (priv_restore_array (b0, v)) (\<lambda>(b1, v1).
        if ptype v1 \<noteq> GHOSTED then
          bindE (petsc (VecSet (vec v1) 0) b1) (\<lambda>b2. Inr (b2, v1))
        else
          bindE (petsc (VecGhostGetLocalForm (vec v1)) b1) (\<lambda>b2.
          bindE (petsc (VecSet (local_form_of (vec v1)) 0) b2) (\<lambda>b3.
          bindE (petsc (VecGhostRestoreLocalForm (vec v1)) b3) (\<lambda>b4.
          Inr (b4, v1))))))))"

text \<open>
  \<^verbatim>\<open>clear()\<close>, header lines 1039 to 1059. \<^verbatim>\<open>LibMeshVecDestroy\<close> is a macro defined
  outside this header, and whether it resets \<^verbatim>\<open>_vec\<close> cannot be seen here: the model
  leaves the handle in \<^verbatim>\<open>_vec\<close> as it is, and the backend has no object under it any
  more.
\<close>

definition clear :: "config \<Rightarrow> 'a::len word state \<Rightarrow> 'a word error + 'a word state" where
  "clear cfg s =
     (case s of (b, v) \<Rightarrow>
        bindE (parallel_object_only cfg b) (\<lambda>b0.
        bindE (if is_initialized v then priv_restore_array (b0, v) else Inr (b0, v)) (\<lambda>(b1, v1).
        bindE (if is_initialized v1 \<and> destroy_vec_on_exit v1
               then petsc_destroy (vec v1) b1 else Inr b1) (\<lambda>b2.
        Inr (b2, v1\<lparr>is_closed := False, is_initialized := False, global_to_local_map := []\<rparr>)))))"

text \<open>\<^verbatim>\<open>close()\<close>, header lines 1011 to 1035.\<close>

definition close :: "config \<Rightarrow> 'a::len word state \<Rightarrow> 'a word error + 'a word state" where
  "close cfg s =
     bindE (parallel_object_only cfg (fst s)) (\<lambda>b0.
     bindE (priv_restore_array (b0, snd s)) (\<lambda>(b1, v1).
     bindE (petsc (VecAssemblyBegin (vec v1)) b1) (\<lambda>b2.
     bindE (petsc (VecAssemblyEnd (vec v1)) b2) (\<lambda>b3.
     bindE (if ptype v1 = GHOSTED then
              bindE (petsc (VecGhostUpdateBegin (vec v1) INSERT_VALUES SCATTER_FORWARD) b3) (\<lambda>b4.
              petsc (VecGhostUpdateEnd (vec v1) INSERT_VALUES SCATTER_FORWARD) b4)
            else Inr b3) (\<lambda>b5.
     Inr (b5, v1\<lparr>is_closed := True\<rparr>))))))"

section \<open>Initialization\<close>

text \<open>
  \<^verbatim>\<open>init(n, n_local, fast, ptype)\<close>, header lines 829 to 895.
\<close>

definition init :: "config \<Rightarrow> 'a::len word \<Rightarrow> 'a word \<Rightarrow> bool \<Rightarrow> ParallelType \<Rightarrow> 'a word state \<Rightarrow> 'a word error + 'a word state" where
  "init cfg n n_local fast ptype' s =
     bindE (parallel_object_only cfg (fst s)) (\<lambda>b0.
     bindE (if is_initialized (snd s) then clear cfg (b0, snd s) else Inr (b0, snd s)) (\<lambda>(b1, v1).
     let v2 = v1\<lparr>ptype := (if ptype' = AUTOMATIC
                             then (if n = n_local then SERIAL else PARALLEL)
                             else ptype')\<rparr> in
     bindE (libmesh_assert cfg ((ptype v2 = SERIAL \<and> n = n_local) \<or> ptype v2 = PARALLEL)) (\<lambda>_.
     bindE (if ptype v2 = SERIAL then
              bindE (petsc_create (VecCreateSeq n) b1) (\<lambda>(h, b2).
              bindE (petsc (VecSetFromOptions h) b2) (\<lambda>b3. Inr (b3, v2\<lparr>vec := h\<rparr>)))
            else if ptype v2 = PARALLEL then
              bindE (if have_mpi cfg then
                       bindE (libmesh_assert cfg (n_local \<le> n)) (\<lambda>_.
                       petsc_create (VecCreateMPI n_local n) b1)
                     else
                       bindE (libmesh_assert cfg (n_local = n)) (\<lambda>_.
                       petsc_create (VecCreateSeq n) b1)) (\<lambda>(h, b2).
              bindE (petsc (VecSetFromOptions h) b2) (\<lambda>b3. Inr (b3, v2\<lparr>vec := h\<rparr>)))
            else Inl (UnsupportedType (ptype v2))) (\<lambda>(b3, v3).
     let v4 = v3\<lparr>is_initialized := True, is_closed := True\<rparr> in
     if \<not> fast then zero_vec cfg (b3, v4) else Inr (b3, v4)))))"

text \<open>\<^verbatim>\<open>init(n, fast, ptype)\<close>, header lines 899 to 906.\<close>

definition init_n :: "config \<Rightarrow> 'a::len word \<Rightarrow> bool \<Rightarrow> ParallelType \<Rightarrow> 'a word state \<Rightarrow> 'a word error + 'a word state" where
  "init_n cfg n fast ptype' s = init cfg n n fast ptype' s"

text \<open>
  The loop of header lines 949 to 952 that fills \<^verbatim>\<open>_global_to_local_map\<close>. Its counter
  has the index type and is compared with \<^verbatim>\<open>ghost.size()\<close>, a \<^verbatim>\<open>size_t\<close>: when the list
  has \<open>2 ^ LENGTH('a)\<close> entries or more, the counter wraps around before it reaches the
  bound and the loop does not end, which is the value \<open>None\<close>.
\<close>

partial_function (option) ghost_map_loop :: "'a::len word list \<Rightarrow> 'a word \<Rightarrow> ('a word \<times> 'a word) list \<Rightarrow> ('a word \<times> 'a word) list option" where
  "ghost_map_loop ghost i m =
     (if unat i < length ghost
      then ghost_map_loop ghost (i + 1) (AList.update (ghost ! unat i) i m)
      else Some m)"

text \<open>
  \<^verbatim>\<open>init(n, n_local, ghost, fast, ptype)\<close>, header lines 910 to 968. The assertion on
  \<^verbatim>\<open>sizeof(PetscInt)\<close> is a compile-time constant that the \<^verbatim>\<open>static_assert\<close> at the end
  of the header makes true.
\<close>

definition init_ghost :: "config \<Rightarrow> 'a::len word \<Rightarrow> 'a word \<Rightarrow> 'a word list \<Rightarrow> bool \<Rightarrow> ParallelType \<Rightarrow> 'a word state \<Rightarrow> ('a word error + 'a word state) option" where
  "init_ghost cfg n n_local ghost fast ptype' s =
     (case bindE (parallel_object_only cfg (fst s)) (\<lambda>b0.
             if is_initialized (snd s) then clear cfg (b0, snd s) else Inr (b0, snd s)) of
        Inl e \<Rightarrow> Some (Inl e)
      | Inr (b1, v1) \<Rightarrow>
          (case (libmesh_assert cfg (ptype' = AUTOMATIC \<or> ptype' = GHOSTED) :: 'a word error + unit) of
             Inl e \<Rightarrow> Some (Inl e)
           | Inr _ \<Rightarrow>
               (case ghost_map_loop ghost 0 (global_to_local_map v1) of
                  None \<Rightarrow> None
                | Some m \<Rightarrow>
                    Some (
                      let v2 = v1\<lparr>ptype := GHOSTED, global_to_local_map := m\<rparr> in
                      bindE (petsc_create (VecCreateGhost n_local n (of_nat (length ghost)) ghost) b1) (\<lambda>(h, b2).
                      bindE (petsc (VecSetFromOptions h) b2) (\<lambda>b3.
                      let v3 = v2\<lparr>vec := h, is_initialized := True, is_closed := True\<rparr> in
                      if \<not> fast then zero_vec cfg (b3, v3) else Inr (b3, v3)))))))"

text \<open>
  \<^verbatim>\<open>init(other, fast)\<close>, header lines 972 to 1007. The state is the backend, this
  vector and the other vector, whose cache the call releases.
\<close>

definition init_other :: "config \<Rightarrow> bool \<Rightarrow> 'a::len word petsc \<times> 'a word PetscVector \<times> 'a word PetscVector \<Rightarrow> 'a word error + ('a word petsc \<times> 'a word PetscVector \<times> 'a word PetscVector)" where
  "init_other cfg fast s =
     (case s of (b, t, v) \<Rightarrow>
        bindE (parallel_object_only cfg b) (\<lambda>b0.
        bindE (if is_initialized t then clear cfg (b0, t) else Inr (b0, t)) (\<lambda>(b1, t1).
        bindE (if is_initialized v then priv_restore_array (b1, v) else Inr (b1, v)) (\<lambda>(b2, v1).
        let t2 = t1\<lparr>global_to_local_map := global_to_local_map v1,
                    is_closed := True, is_initialized := True, ptype := ptype v1\<rparr> in
        bindE (petsc_create (VecDuplicate (vec v1)) b2) (\<lambda>(h, b3).
        bindE (if \<not> fast then zero_vec cfg (b3, t2\<lparr>vec := h\<rparr>) else Inr (b3, t2\<lparr>vec := h\<rparr>)) (\<lambda>(b4, t3).
        Inr (b4, t3, v1)))))))"

section \<open>Constructors\<close>

text \<open>
  The constructor of header lines 655 to 670. \<^verbatim>\<open>NumericVector<T>\<close>'s constructor is
  outside this header; the specification has a vector "created Uninitialized (size 0, no
  backend storage)". The members the initializer list leaves out (\<^verbatim>\<open>_vec\<close>,
  \<^verbatim>\<open>_local_size\<close>, \<^verbatim>\<open>_read_only_values\<close>) are indeterminate in C++ and null or zero
  here.
\<close>

definition PetscVector_ctor :: "ParallelType \<Rightarrow> 'a::len word PetscVector" where
  "PetscVector_ctor ptype' =
     \<lparr>is_closed = False, is_initialized = False, ptype = ptype', vec = NullVec,
      array_is_present = False, first_cached = 0, last_cached = 0, local_size_cached = 0,
      local_form = NullVec, read_only_values = NullVec, values_rw = NullVec,
      global_to_local_map = [], destroy_vec_on_exit = True,
      values_manually_retrieved = False, values_read_only = False\<rparr>"

text \<open>
  The constructors of header lines 674 to 730, which initialize at once. Their initializer
  lists leave \<^verbatim>\<open>_first\<close> and \<^verbatim>\<open>_last\<close> out as well; they are zero here.
\<close>

definition PetscVector_n :: "config \<Rightarrow> 'a::len word \<Rightarrow> ParallelType \<Rightarrow> 'a word petsc \<Rightarrow> 'a word error + 'a word state" where
  "PetscVector_n cfg n ptype' b = init cfg n n False ptype' (b, PetscVector_ctor ptype')"

definition PetscVector_n_local :: "config \<Rightarrow> 'a::len word \<Rightarrow> 'a word \<Rightarrow> ParallelType \<Rightarrow> 'a word petsc \<Rightarrow> 'a word error + 'a word state" where
  "PetscVector_n_local cfg n n_local ptype' b = init cfg n n_local False ptype' (b, PetscVector_ctor ptype')"

definition PetscVector_ghost :: "config \<Rightarrow> 'a::len word \<Rightarrow> 'a word \<Rightarrow> 'a word list \<Rightarrow> ParallelType \<Rightarrow> 'a word petsc \<Rightarrow> ('a word error + 'a word state) option" where
  "PetscVector_ghost cfg n n_local ghost ptype' b =
     init_ghost cfg n n_local ghost False ptype' (b, PetscVector_ctor ptype')"

text \<open>
  The constructor that wraps an existing \<^verbatim>\<open>Vec\<close>, header lines 736 to 815 (the branches
  for current PETSc releases). The local-to-global mapping of a vector created with ghost
  padding lists its owned indices, then its ghost indices; other vectors have none. The
  loop of lines 802 and 803 compares two values of the index type and ends.
\<close>

definition local_to_global :: "'a::len word vec_obj \<Rightarrow> 'a word list option" where
  "local_to_global obj =
     (case ghosts obj of
        None \<Rightarrow> None
      | Some gs \<Rightarrow>
          Some (map (\<lambda>k. own_first obj + of_nat k) [0 ..< unat (own_last obj - own_first obj)] @ gs))"

function wrap_map_loop :: "'a::len word list \<Rightarrow> 'a word \<Rightarrow> 'a word \<Rightarrow> 'a word \<Rightarrow> ('a word \<times> 'a word) list \<Rightarrow> ('a word \<times> 'a word) list" where
  "wrap_map_loop indices my_local_size ghost_end i m =
     (if i < ghost_end
      then wrap_map_loop indices my_local_size ghost_end (i + 1)
             (AList.update (indices ! unat i) (i - my_local_size) m)
      else m)"
  by pat_completeness auto
termination
proof (relation "measure (\<lambda>(indices, my_local_size, ghost_end, i, m). unat ghost_end - unat i)")
  show "wf (measure (\<lambda>(indices :: 'a word list, my_local_size :: 'a word, ghost_end :: 'a word, i :: 'a word, m :: ('a word \<times> 'a word) list). unat ghost_end - unat i))"
    by simp
next
  fix indices :: "'a word list" and my_local_size ghost_end i :: "'a word"
    and m :: "('a word \<times> 'a word) list"
  assume lt: "i < ghost_end"
  then have "unat (i + 1) = Suc (unat i)"
    by (metis add.commute add_cancel_left_left inc_i linorder_not_less unatSuc
        word_less_1 zero_neq_one)
  moreover from lt have "unat i < unat ghost_end"
    by (simp add: word_less_nat_alt)
  ultimately show "((indices, my_local_size, ghost_end, i + 1,
                     AList.update (indices ! unat i) (i - my_local_size) m),
                    (indices, my_local_size, ghost_end, i, m))
                   \<in> measure (\<lambda>(indices, my_local_size, ghost_end, i, m). unat ghost_end - unat i)"
    by simp
qed

definition PetscVector_wrap :: "Vec \<Rightarrow> 'a::len word petsc \<Rightarrow> 'a word error + 'a word PetscVector" where
  "PetscVector_wrap v b =
     (let this = \<lparr>is_closed = True, is_initialized = True, ptype = AUTOMATIC, vec = v,
                  array_is_present = False, first_cached = 0, last_cached = 0,
                  local_size_cached = 0, local_form = NullVec, read_only_values = NullVec,
                  values_rw = NullVec, global_to_local_map = [],
                  destroy_vec_on_exit = False, values_manually_retrieved = False,
                  values_read_only = False\<rparr> in
      bindE (petsc_local_size v b) (\<lambda>petsc_local_size.
      bindE (petsc_query (VecGetType v) v b) (\<lambda>obj.
      if vtype obj = VECSHARED \<or> vtype obj = VECMPI then
        bindE (petsc_query (VecGetLocalToGlobalMapping v) v b) (\<lambda>obj'.
        case local_to_global obj' of
          Some indices \<Rightarrow>
            Inr (this\<lparr>global_to_local_map :=
                        wrap_map_loop indices petsc_local_size (of_nat (length indices))
                          petsc_local_size [],
                      ptype := GHOSTED\<rparr>)
        | None \<Rightarrow> Inr (this\<lparr>ptype := PARALLEL\<rparr>))
      else Inr (this\<lparr>ptype := SERIAL\<rparr>))))"

declare wrap_map_loop.simps [simp del]

section \<open>Queries and element access\<close>

text \<open>\<^verbatim>\<open>size()\<close>, header lines 1123 to 1139.\<close>

definition size_vec :: "config \<Rightarrow> 'a::len word petsc \<Rightarrow> 'a word PetscVector \<Rightarrow> 'a word error + 'a word" where
  "size_vec cfg b v =
     bindE (libmesh_assert cfg (is_initialized v)) (\<lambda>_.
     if \<not> is_initialized v then Inr 0
     else petsc_size (vec v) b)"

text \<open>\<^verbatim>\<open>local_size()\<close>, header lines 1143 to 1156.\<close>

definition local_size :: "config \<Rightarrow> 'a::len word petsc \<Rightarrow> 'a word PetscVector \<Rightarrow> 'a word error + 'a word" where
  "local_size cfg b v =
     bindE (libmesh_assert cfg (is_initialized v)) (\<lambda>_. petsc_local_size (vec v) b)"

text \<open>\<^verbatim>\<open>first_local_index()\<close> and \<^verbatim>\<open>last_local_index()\<close>, header lines 1160 to 1204.\<close>

definition first_local_index :: "config \<Rightarrow> 'a::len word petsc \<Rightarrow> 'a word PetscVector \<Rightarrow> 'a word error + 'a word" where
  "first_local_index cfg b v =
     bindE (libmesh_assert cfg (is_initialized v)) (\<lambda>_.
     if array_is_present v then Inr (first_cached v)
     else bindE (petsc_ownership_range (vec v) b) (\<lambda>(petsc_first, petsc_last). Inr petsc_first))"

definition last_local_index :: "config \<Rightarrow> 'a::len word petsc \<Rightarrow> 'a word PetscVector \<Rightarrow> 'a word error + 'a word" where
  "last_local_index cfg b v =
     bindE (libmesh_assert cfg (is_initialized v)) (\<lambda>_.
     if array_is_present v then Inr (last_cached v)
     else bindE (petsc_ownership_range (vec v) b) (\<lambda>(petsc_first, petsc_last). Inr petsc_last))"

text \<open>
  \<^verbatim>\<open>map_global_to_local_index(i)\<close>, header lines 1208 to 1264. The error of a build with
  assertions carries what its message prints: the index, the two bounds and the keys of
  the ghost map, as a set, since the message lists them in the order in which the
  unordered map iterates. Without assertions the end iterator is dereferenced.
\<close>

definition map_global_to_local_index :: "config \<Rightarrow> 'a::len word petsc \<Rightarrow> 'a word PetscVector \<Rightarrow> 'a word \<Rightarrow> 'a word error + 'a word" where
  "map_global_to_local_index cfg b v i =
     bindE (libmesh_assert cfg (is_initialized v)) (\<lambda>_.
     bindE (if array_is_present v then Inr (first_cached v, last_cached v)
            else petsc_ownership_range (vec v) b) (\<lambda>(first_i, last_i).
     if i \<ge> first_i \<and> i < last_i then Inr (i - first_i)
     else
       case map_of (global_to_local_map v) i of
         None \<Rightarrow>
           if ndebug cfg then Inl UndefinedBehavior
           else Inl (NoIndex i first_i last_i (fst ` set (global_to_local_map v)))
       | Some second \<Rightarrow> Inr (second + last_i - first_i)))"

text \<open>
  \<^verbatim>\<open>operator()(i)\<close>, header lines 1268 to 1284. The scalar it returns is read from the
  backend's array; the model returns the array and the slot that is read.
\<close>

definition operator_call :: "config \<Rightarrow> 'a::len word \<Rightarrow> 'a word state \<Rightarrow> 'a word error + ((Vec \<times> 'a word) \<times> 'a word state)" where
  "operator_call cfg i s =
     bindE (priv_get_array True s) (\<lambda>(b1, v1).
     bindE (map_global_to_local_index cfg b1 v1 i) (\<lambda>local_index.
     bindE (if ptype v1 = GHOSTED then libmesh_assert cfg (local_index < local_size_cached v1)
            else Inr ()) (\<lambda>_.
     Inr ((read_only_values v1, local_index), (b1, v1)))))"

text \<open>\<^verbatim>\<open>get_array()\<close>, \<^verbatim>\<open>get_array_read()\<close> and \<^verbatim>\<open>restore_array()\<close>, header lines 1311 to 1340.\<close>

definition get_array :: "'a::len word state \<Rightarrow> 'a word error + (Vec \<times> 'a word state)" where
  "get_array s =
     (case s of (b, v) \<Rightarrow>
        bindE (priv_get_array False (b, v\<lparr>values_manually_retrieved := True\<rparr>)) (\<lambda>(b1, v1).
        Inr (values_rw v1, (b1, v1))))"

definition get_array_read :: "'a::len word state \<Rightarrow> 'a word error + (Vec \<times> 'a word state)" where
  "get_array_read s =
     (case s of (b, v) \<Rightarrow>
        bindE (priv_get_array True (b, v\<lparr>values_manually_retrieved := True\<rparr>)) (\<lambda>(b1, v1).
        Inr (read_only_values v1, (b1, v1))))"

definition restore_array :: "'a::len word state \<Rightarrow> 'a word error + 'a word state" where
  "restore_array s =
     (case s of (b, v) \<Rightarrow> priv_restore_array (b, v\<lparr>values_manually_retrieved := False\<rparr>))"

text \<open>
  \<^verbatim>\<open>min()\<close> and \<^verbatim>\<open>max()\<close>, header lines 1342 to 1380: the cache is released and the
  backend reduces. The number returned is the backend's and is not modelled.
\<close>

definition min_vec :: "config \<Rightarrow> 'a::len word state \<Rightarrow> 'a word error + 'a word state" where
  "min_vec cfg s =
     bindE (parallel_object_only cfg (fst s)) (\<lambda>b0.
     bindE (priv_restore_array (b0, snd s)) (\<lambda>(b1, v1).
     bindE (petsc (VecMin (vec v1)) b1) (\<lambda>b2. Inr (b2, v1))))"

definition max_vec :: "config \<Rightarrow> 'a::len word state \<Rightarrow> 'a word error + 'a word state" where
  "max_vec cfg s =
     bindE (parallel_object_only cfg (fst s)) (\<lambda>b0.
     bindE (priv_restore_array (b0, snd s)) (\<lambda>(b1, v1).
     bindE (petsc (VecMax (vec v1)) b1) (\<lambda>b2. Inr (b2, v1))))"

section \<open>Swap\<close>

text \<open>
  Modelled from the spec: \<^verbatim>\<open>NumericVector<T>::swap\<close>, which line 1390 calls, is defined
  in the header of the base class, which is missing. It is the swap of the base class,
  whose members are the lifecycle flags and the storage type; the specification has
  \<^verbatim>\<open>swap(A,B)\<close> exchange the two instances' state and be its own inverse.
\<close>

definition NumericVector_swap :: "'i PetscVector \<times> 'i PetscVector \<Rightarrow> 'i PetscVector \<times> 'i PetscVector" where
  "NumericVector_swap p =
     (case p of (t, v) \<Rightarrow>
        (t\<lparr>is_closed := is_closed v, is_initialized := is_initialized v, ptype := ptype v\<rparr>,
         v\<lparr>is_closed := is_closed t, is_initialized := is_initialized t, ptype := ptype t\<rparr>))"

text \<open>
  \<^verbatim>\<open>swap(other)\<close>, header lines 1384 to 1407, on two distinct objects: what lines 1390 to
  1406 do to the two objects. Both branches of the \<^verbatim>\<open>LIBMESH_HAVE_CXX11_THREAD\<close> switch
  exchange \<^verbatim>\<open>_array_is_present\<close>.
\<close>

definition swap :: "'i PetscVector \<times> 'i PetscVector \<Rightarrow> 'i PetscVector \<times> 'i PetscVector" where
  "swap p =
     (case NumericVector_swap p of (t, v) \<Rightarrow>
        (t\<lparr>vec := vec v,
           destroy_vec_on_exit := destroy_vec_on_exit v,
           global_to_local_map := global_to_local_map v,
           array_is_present := array_is_present v,
           local_form := local_form v,
           values_rw := values_rw v\<rparr>,
         v\<lparr>vec := vec t,
           destroy_vec_on_exit := destroy_vec_on_exit t,
           global_to_local_map := global_to_local_map t,
           array_is_present := array_is_present t,
           local_form := local_form t,
           values_rw := values_rw t\<rparr>))"

text \<open>
  The whole call: the check of line 1388, which touches neither object, and then the
  exchange.
\<close>

definition swap_call :: "config \<Rightarrow> 'a::len word petsc \<times> 'a word PetscVector \<times> 'a word PetscVector \<Rightarrow> 'a word error + ('a word petsc \<times> 'a word PetscVector \<times> 'a word PetscVector)" where
  "swap_call cfg s =
     (case s of (b, t, v) \<Rightarrow>
        bindE (parallel_object_only cfg b) (\<lambda>b0.
        case swap (t, v) of (t', v') \<Rightarrow> Inr (b0, t', v')))"

section \<open>Sequences of operations\<close>

text \<open>
  The operations on one instance whose bodies are in the header, and the run of a list of
  them, which stops at the first error. An operation that does not return makes the run
  \<open>None\<close>. \<open>InitOther\<close> carries the vector that \<^verbatim>\<open>init(other, fast)\<close> copies from.
  The destructor is \<open>Clear\<close> (header lines 820 to 825).
\<close>

datatype 'i vec_op =
    Init 'i 'i bool ParallelType
  | InitN 'i bool ParallelType
  | InitGhost 'i 'i "'i list" bool ParallelType
  | InitOther "'i PetscVector" bool
  | Close
  | Clear
  | Zero
  | OperatorCall 'i
  | GetArray
  | GetArrayRead
  | RestoreArray
  | Min
  | Max

fun exec :: "config \<Rightarrow> 'a::len word vec_op \<Rightarrow> 'a word state \<Rightarrow> ('a word error + 'a word state) option" where
  "exec cfg (Init n n_local fast t) s = Some (init cfg n n_local fast t s)"
| "exec cfg (InitN n fast t) s = Some (init_n cfg n fast t s)"
| "exec cfg (InitGhost n n_local ghost fast t) s = init_ghost cfg n n_local ghost fast t s"
| "exec cfg (InitOther other fast) s =
     Some (bindE (init_other cfg fast (fst s, snd s, other)) (\<lambda>(b, t, v). Inr (b, t)))"
| "exec cfg Close s = Some (close cfg s)"
| "exec cfg Clear s = Some (clear cfg s)"
| "exec cfg Zero s = Some (zero_vec cfg s)"
| "exec cfg (OperatorCall i) s = Some (bindE (operator_call cfg i s) (\<lambda>(r, s'). Inr s'))"
| "exec cfg GetArray s = Some (bindE (get_array s) (\<lambda>(r, s'). Inr s'))"
| "exec cfg GetArrayRead s = Some (bindE (get_array_read s) (\<lambda>(r, s'). Inr s'))"
| "exec cfg RestoreArray s = Some (restore_array s)"
| "exec cfg Min s = Some (min_vec cfg s)"
| "exec cfg Max s = Some (max_vec cfg s)"

fun run :: "config \<Rightarrow> 'a::len word vec_op list \<Rightarrow> 'a word state \<Rightarrow> ('a word error + 'a word state) option" where
  "run cfg [] s = Some (Inr s)"
| "run cfg (p # ps) s =
     (case exec cfg p s of
        None \<Rightarrow> None
      | Some (Inl e) \<Rightarrow> Some (Inl e)
      | Some (Inr s') \<Rightarrow> run cfg ps s')"

section \<open>Notions of the specification\<close>

text \<open>
  The lifecycle state of the specification, read off the two flags of the base class:
  a vector that is not initialized is Uninitialized; an initialized one is Closed when
  \<^verbatim>\<open>closed()\<close> holds and Open otherwise.
\<close>

datatype lifecycle = Uninitialized | Open | Closed

definition lifecycle_of :: "'i PetscVector \<Rightarrow> lifecycle" where
  "lifecycle_of v =
     (if \<not> is_initialized v then Uninitialized
      else if is_closed v then Closed else Open)"


text \<open>What \<open>parallel_object_only\<close> enters into the log.\<close>

definition parallel_only_ops :: "config \<Rightarrow> 'i petsc_op list" where
  "parallel_only_ops cfg = (if parallel_only cfg then [ParallelObjectOnly] else [])"

text \<open>The calls by which \<open>priv_restore_array\<close> hands a cached view back.\<close>

definition release_ops :: "'a::len word PetscVector \<Rightarrow> 'a word petsc_op list" where
  "release_ops v =
     (if array_is_present v then
        [if values_read_only v
         then VecRestoreArrayRead (if ptype v = GHOSTED then local_form v else vec v)
         else VecRestoreArray (if ptype v = GHOSTED then local_form v else vec v)] @
        (if ptype v = GHOSTED then [VecGhostRestoreLocalForm (vec v)] else [])
      else [])"

text \<open>The calls by which \<open>zero_vec\<close> zeroes the entries, after the release.\<close>

definition zero_ops :: "'a::len word PetscVector \<Rightarrow> 'a word petsc_op list" where
  "zero_ops v =
     (if ptype v = GHOSTED
      then [VecGhostGetLocalForm (vec v), VecSet (local_form_of (vec v)) 0,
            VecGhostRestoreLocalForm (vec v)]
      else [VecSet (vec v) 0])"

text \<open>
  The map that the loop of \<open>init_ghost\<close> builds, by recursion over the entries of the
  ghost list that are still to be entered, \<open>k\<close> being the position of the first of them.
\<close>

primrec ghost_map_fill :: "'a::len word list \<Rightarrow> nat \<Rightarrow> ('a word \<times> 'a word) list \<Rightarrow> ('a word \<times> 'a word) list" where
  "ghost_map_fill [] k m = m"
| "ghost_map_fill (g # gs) k m = ghost_map_fill gs (Suc k) (AList.update g (of_nat k) m)"

text \<open>
  The operations that neither create nor destroy the backend vector of the instance.
\<close>

fun keeps_storage :: "'i vec_op \<Rightarrow> bool" where
  "keeps_storage Close = True"
| "keeps_storage Zero = True"
| "keeps_storage (OperatorCall i) = True"
| "keeps_storage GetArray = True"
| "keeps_storage GetArrayRead = True"
| "keeps_storage RestoreArray = True"
| "keeps_storage Min = True"
| "keeps_storage Max = True"
| "keeps_storage p = False"

text \<open>
  An initialized vector whose ghost map is \<open>m\<close> and whose backend vector is the object
  \<open>obj\<close> under handle \<open>h\<close>; the bounds of a cached view, when one is present, are the
  ownership range of \<open>obj\<close>.
\<close>

definition cache_agrees :: "nat \<Rightarrow> 'a::len word vec_obj \<Rightarrow> ('a word \<times> 'a word) list \<Rightarrow> 'a word state \<Rightarrow> bool" where
  "cache_agrees h obj m s =
     (case s of (b, v) \<Rightarrow>
        is_initialized v \<and> global_to_local_map v = m \<and> vec v = VecObj h \<and>
        objs b h = Some obj \<and>
        (\<not> array_is_present v \<or>
         (first_cached v = own_first obj \<and> last_cached v = own_last obj)))"

section \<open>Example configurations and states\<close>

definition cfg_dbg :: config where
  "cfg_dbg = \<lparr>ndebug = False, have_mpi = True, parallel_only = True\<rparr>"

definition cfg_opt :: config where
  "cfg_opt = \<lparr>ndebug = True, have_mpi = True, parallel_only = False\<rparr>"

text \<open>A backend without vector objects, on the process of rank 0, in which no call fails.\<close>

definition petsc0 :: "'a::len word petsc" where
  "petsc0 = \<lparr>objs = (\<lambda>h. None), fresh = 0, calls = [], fails = (\<lambda>c. False),
             layout = (\<lambda>n_local n. 0)\<rparr>"

text \<open>
  The state after \<^verbatim>\<open>init(n, n_local, gs, false, GHOSTED)\<close> on a new vector in \<open>petsc0\<close>,
  in the build \<open>cfg_dbg\<close>, the ghost map being \<open>m\<close>.
\<close>

definition ghost_petsc :: "32 word \<Rightarrow> 32 word \<Rightarrow> 32 word list \<Rightarrow> 32 word petsc" where
  "ghost_petsc n n_local gs =
     petsc0\<lparr>objs := (objs petsc0)(0 \<mapsto> \<lparr>glob_size = n, own_first = 0, own_last = n_local,
                                       ghosts = Some gs, vtype = VECMPI\<rparr>),
            fresh := 1,
            calls := [ParallelObjectOnly,
                      VecCreateGhost n_local n (of_nat (length gs)) gs,
                      VecSetFromOptions (VecObj 0), ParallelObjectOnly,
                      VecGhostGetLocalForm (VecObj 0), VecSet (LocalForm 0) 0,
                      VecGhostRestoreLocalForm (VecObj 0)]\<rparr>"

definition ghost_vec :: "(32 word \<times> 32 word) list \<Rightarrow> 32 word PetscVector" where
  "ghost_vec m =
     (PetscVector_ctor GHOSTED)\<lparr>is_closed := True, is_initialized := True, vec := VecObj 0,
                                global_to_local_map := m\<rparr>"

text \<open>The same vector with ghost list \<open>[4, 5]\<close>, after a read of index 5 has cached a view.\<close>

definition cached_petsc :: "32 word petsc" where
  "cached_petsc =
     (ghost_petsc 6 2 [4, 5])\<lparr>calls := calls (ghost_petsc 6 2 [4, 5]) @
        [VecGhostGetLocalForm (VecObj 0), VecGetArrayRead (LocalForm 0)]\<rparr>"

definition cached_vec :: "32 word PetscVector" where
  "cached_vec =
     (ghost_vec [(4, 0), (5, 1)])\<lparr>array_is_present := True, first_cached := 0,
        last_cached := 2, local_size_cached := 4, local_form := LocalForm 0,
        read_only_values := LocalForm 0, values_read_only := True\<rparr>"

text \<open>
  The state after \<^verbatim>\<open>init(4, 4, false, AUTOMATIC)\<close> on a new vector in \<open>petsc0\<close>, in the
  build \<open>cfg_dbg\<close>.
\<close>

definition serial_petsc :: "32 word petsc" where
  "serial_petsc =
     petsc0\<lparr>objs := (objs petsc0)(0 \<mapsto> \<lparr>glob_size = 4, own_first = 0, own_last = 4,
                                       ghosts = None, vtype = VECSEQ\<rparr>),
            fresh := 1,
            calls := [ParallelObjectOnly, VecCreateSeq 4, VecSetFromOptions (VecObj 0),
                      ParallelObjectOnly, VecSet (VecObj 0) 0]\<rparr>"

definition serial_vec :: "32 word PetscVector" where
  "serial_vec =
     (PetscVector_ctor SERIAL)\<lparr>is_closed := True, is_initialized := True, vec := VecObj 0\<rparr>"

text \<open>A second instance that wraps the backend vector of \<open>serial_vec\<close>.\<close>

definition wrapped_vec :: "32 word PetscVector" where
  "wrapped_vec = serial_vec\<lparr>destroy_vec_on_exit := False\<rparr>"

section \<open>Auxiliary lemmas\<close>

lemma bindE_Inl [simp]: "bindE (Inl e) f = Inl e"
  by (simp add: bindE_def)

lemma bindE_Inr [simp]: "bindE (Inr x) f = f x"
  by (simp add: bindE_def)

lemma bindE_eq_Inr: "bindE m f = Inr y \<longleftrightarrow> (\<exists>x. m = Inr x \<and> f x = Inr y)"
  by (cases m) simp_all

lemma libmesh_assert_Inr: "libmesh_assert cfg c = Inr u \<longleftrightarrow> ndebug cfg \<or> c"
  by (simp add: libmesh_assert_def)

lemma petsc_Inr: "petsc c b = Inr b' \<longleftrightarrow> \<not> fails b c \<and> b' = b\<lparr>calls := calls b @ [c]\<rparr>"
  by (auto simp: petsc_def)

lemma petsc_ok: "\<not> fails b c \<Longrightarrow> petsc c b = Inr (b\<lparr>calls := calls b @ [c]\<rparr>)"
  by (simp add: petsc_def)

lemma petsc_create_Inr:
  "petsc_create c b = Inr (h, b') \<longleftrightarrow>
     \<not> fails b c \<and> h = VecObj (fresh b) \<and>
     (\<exists>obj. created_obj b c = Some obj \<and>
        b' = b\<lparr>calls := calls b @ [c], objs := (objs b)(fresh b \<mapsto> obj), fresh := Suc (fresh b)\<rparr>)"
  by (auto simp: petsc_create_def bindE_eq_Inr petsc_Inr split: option.splits)

lemma petsc_destroy_Inr:
  "petsc_destroy h b = Inr b' \<Longrightarrow>
     fails b' = fails b \<and> layout b' = layout b \<and> fresh b' = fresh b \<and>
     calls b' = calls b @ [VecDestroy h]"
  by (auto simp: petsc_destroy_def bindE_eq_Inr petsc_Inr split: Vec.splits)

lemma parallel_object_only_Inr:
  "parallel_object_only cfg b = Inr b0 \<Longrightarrow> b0 = b\<lparr>calls := calls b @ parallel_only_ops cfg\<rparr>"
  by (auto simp: parallel_object_only_def parallel_only_ops_def split: if_splits)

lemma parallel_object_only_ok:
  "\<forall>c. \<not> fails b c \<Longrightarrow>
     parallel_object_only cfg b = Inr (b\<lparr>calls := calls b @ parallel_only_ops cfg\<rparr>)"
  by (simp add: parallel_object_only_def parallel_only_ops_def)

subsection \<open>Releasing the cache, zeroing, clearing\<close>

lemma priv_restore_array_Inr:
  "priv_restore_array (b, v) = Inr (b1, v1) \<Longrightarrow>
     v1 = v\<lparr>array_is_present := False\<rparr> \<and> b1 = b\<lparr>calls := calls b @ release_ops v\<rparr>"
  by (auto simp: priv_restore_array_def release_ops_def Let_def bindE_eq_Inr petsc_Inr
      split: if_splits)

lemma priv_restore_array_ok:
  "\<forall>c. \<not> fails b c \<Longrightarrow>
     priv_restore_array (b, v) =
       Inr (b\<lparr>calls := calls b @ release_ops v\<rparr>, v\<lparr>array_is_present := False\<rparr>)"
  by (auto simp: priv_restore_array_def release_ops_def Let_def petsc_ok)

lemma zero_vec_Inr:
  assumes "zero_vec cfg (b, v) = Inr (b', v')"
  shows "v' = v\<lparr>array_is_present := False\<rparr>"
    and "b' = b\<lparr>calls := calls b @ parallel_only_ops cfg @ release_ops v @ zero_ops v\<rparr>"
    and "ndebug cfg \<or> is_closed v"
proof -
  from assms obtain b0 b1 v1 where p: "parallel_object_only cfg b = Inr b0"
    and r: "priv_restore_array (b0, v) = Inr (b1, v1)"
    and a: "ndebug cfg \<or> is_closed v"
    by (auto simp: zero_vec_def bindE_eq_Inr libmesh_assert_Inr)
  note p' = parallel_object_only_Inr [OF p]
  note r' = priv_restore_array_Inr [OF r]
  from a show "ndebug cfg \<or> is_closed v" .
  from assms p r a show "v' = v\<lparr>array_is_present := False\<rparr>"
    by (auto simp: zero_vec_def r' libmesh_assert_def bindE_eq_Inr split: if_splits)
  from assms p r a
  have "b' = b0\<lparr>calls := calls b0 @ release_ops v @ zero_ops v\<rparr>"
    by (auto simp: zero_vec_def r' libmesh_assert_def zero_ops_def bindE_eq_Inr petsc_Inr
        split: if_splits)
  then show "b' = b\<lparr>calls := calls b @ parallel_only_ops cfg @ release_ops v @ zero_ops v\<rparr>"
    by (simp add: p')
qed

lemma clear_Inr:
  assumes "clear cfg (b, v) = Inr (b', v')"
  shows "v' = (if is_initialized v then v\<lparr>array_is_present := False\<rparr> else v)
              \<lparr>is_closed := False, is_initialized := False, global_to_local_map := []\<rparr>"
    and "fails b' = fails b" and "layout b' = layout b" and "fresh b' = fresh b"
proof -
  from assms obtain b0 b1 v1 where p: "parallel_object_only cfg b = Inr b0" and
    r: "(if is_initialized v then priv_restore_array (b0, v) else Inr (b0, v)) = Inr (b1, v1)"
    by (auto simp: clear_def bindE_eq_Inr)
  note p' = parallel_object_only_Inr [OF p]
  from r have v1: "v1 = (if is_initialized v then v\<lparr>array_is_present := False\<rparr> else v)"
    and b1: "fails b1 = fails b0 \<and> layout b1 = layout b0 \<and> fresh b1 = fresh b0"
    by (auto split: if_splits dest: priv_restore_array_Inr)
  from assms p r show "v' = (if is_initialized v then v\<lparr>array_is_present := False\<rparr> else v)
              \<lparr>is_closed := False, is_initialized := False, global_to_local_map := []\<rparr>"
    by (auto simp: clear_def v1 bindE_eq_Inr split: if_splits)
  from assms p r b1 have "fails b' = fails b0 \<and> layout b' = layout b0 \<and> fresh b' = fresh b0"
    by (auto simp: clear_def bindE_eq_Inr split: if_splits dest: petsc_destroy_Inr)
  then show "fails b' = fails b" "layout b' = layout b" "fresh b' = fresh b"
    by (simp_all add: p')
qed

lemma clear_guard_Inr:
  assumes "bindE (parallel_object_only cfg b)
             (\<lambda>b0. if is_initialized v then clear cfg (b0, v) else Inr (b0, v)) = Inr (b1, v1)"
  shows "destroy_vec_on_exit v1 = destroy_vec_on_exit v"
    and "\<not> is_initialized v1" and "fails b1 = fails b" and "layout b1 = layout b"
    and "fresh b1 = fresh b"
    and "global_to_local_map v1 = (if is_initialized v then [] else global_to_local_map v)"
    and "array_is_present v1 = (\<not> is_initialized v \<and> array_is_present v)"
proof -
  from assms obtain b0 where p: "parallel_object_only cfg b = Inr b0"
    and c: "(if is_initialized v then clear cfg (b0, v) else Inr (b0, v)) = Inr (b1, v1)"
    by (auto simp: bindE_eq_Inr)
  note p' = parallel_object_only_Inr [OF p]
  from c show "destroy_vec_on_exit v1 = destroy_vec_on_exit v" "\<not> is_initialized v1"
    "global_to_local_map v1 = (if is_initialized v then [] else global_to_local_map v)"
    "array_is_present v1 = (\<not> is_initialized v \<and> array_is_present v)"
    by (auto split: if_splits dest: clear_Inr)
  from c have "fails b1 = fails b0 \<and> layout b1 = layout b0 \<and> fresh b1 = fresh b0"
    by (auto split: if_splits dest: clear_Inr)
  then show "fails b1 = fails b" "layout b1 = layout b" "fresh b1 = fresh b"
    by (simp_all add: p')
qed

subsection \<open>Evaluation of the examples\<close>

lemmas eval_defs =
  init_def init_n_def init_ghost_def init_other_def clear_def close_def zero_vec_def
  priv_restore_array_def priv_get_array_def petsc_def petsc_create_def petsc_destroy_def
  petsc_query_def petsc_ownership_range_def petsc_size_def petsc_local_size_def
  local_form_of_def libmesh_assert_def PetscVector_ctor_def petsc0_def cfg_dbg_def
  cfg_opt_def operator_call_def map_global_to_local_index_def get_array_def
  get_array_read_def restore_array_def min_vec_def max_vec_def size_vec_def
  first_local_index_def last_local_index_def local_size_def parallel_object_only_def
  parallel_only_ops_def swap_call_def

lemmas ex_defs =
  ghost_petsc_def ghost_vec_def cached_petsc_def cached_vec_def serial_petsc_def
  serial_vec_def wrapped_vec_def

lemma ex_cached_read:
  "operator_call cfg_dbg 5 (ghost_petsc 6 2 [4, 5], ghost_vec [(4, 0), (5, 1)])
     = Inr ((LocalForm 0, 3), (cached_petsc, cached_vec))"
  by (simp add: eval_defs ex_defs Let_def)

subsection \<open>The loop that fills the ghost map\<close>

lemma ghost_map_loop_fill:
  fixes ghost :: "'a::len word list"
  assumes "length ghost < 2 ^ LENGTH('a)"
  shows "k \<le> length ghost \<Longrightarrow>
         ghost_map_loop ghost (of_nat k) m = Some (ghost_map_fill (drop k ghost) k m)"
proof (induction "length ghost - k" arbitrary: k m)
  case 0
  then have k: "k = length ghost" by simp
  with assms have "unat (of_nat k :: 'a word) = k"
    by (simp add: unat_of_nat)
  with k show ?case
    by (subst ghost_map_loop.simps) simp
next
  case (Suc d)
  then have lt: "k < length ghost" by simp
  with assms have u: "unat (of_nat k :: 'a word) = k"
    by (simp add: unat_of_nat)
  from lt have dr: "drop k ghost = ghost ! k # drop (Suc k) ghost"
    by (simp add: Cons_nth_drop_Suc)
  from Suc.hyps(2) lt have "d = length ghost - Suc k" "Suc k \<le> length ghost"
    by simp_all
  then have "ghost_map_loop ghost (of_nat (Suc k)) (AList.update (ghost ! k) (of_nat k) m)
      = Some (ghost_map_fill (drop (Suc k) ghost) (Suc k) (AList.update (ghost ! k) (of_nat k) m))"
    by (rule Suc.hyps(1))
  with lt u dr show ?case
    by (subst ghost_map_loop.simps) (simp add: add.commute)
qed

lemma ghost_map_loop_returns:
  fixes ghost :: "'a::len word list"
  shows "length ghost < 2 ^ LENGTH('a) \<Longrightarrow>
         ghost_map_loop ghost 0 m = Some (ghost_map_fill ghost 0 m)"
  using ghost_map_loop_fill [of ghost 0 m] by simp

lemma ghost_map_loop_bound:
  fixes ghost :: "'a::len word list"
  assumes "ghost_map_loop ghost i m = Some r"
  shows "length ghost < 2 ^ LENGTH('a)"
proof (rule ghost_map_loop.raw_induct [OF _ assms])
  fix loop and ghost :: "'a word list" and i :: "'a word" and m r :: "('a word \<times> 'a word) list"
  assume ih: "\<And>ghost i m r. loop ghost i m = Some r \<Longrightarrow> length ghost < 2 ^ LENGTH('a)"
    and step: "(if unat i < length ghost
                then loop ghost (i + 1) (AList.update (ghost ! unat i) i m)
                else Some m) = Some r"
  show "length ghost < 2 ^ LENGTH('a)"
  proof (cases "unat i < length ghost")
    case True
    with step ih show ?thesis by simp
  next
    case False
    moreover have "unat i < 2 ^ LENGTH('a)" by simp
    ultimately show ?thesis by linarith
  qed
qed

lemma map_of_fill_notin:
  "x \<notin> set gs \<Longrightarrow> map_of (ghost_map_fill gs k m) x = map_of m x"
  by (induction gs arbitrary: k m) (auto simp: update_conv')

lemma map_of_fill_last:
  "j < length gs \<Longrightarrow> gs ! j = x \<Longrightarrow> \<forall>l. j < l \<and> l < length gs \<longrightarrow> gs ! l \<noteq> x \<Longrightarrow>
     map_of (ghost_map_fill gs k m) x = Some (of_nat (k + j))"
proof (induction gs arbitrary: k m j)
  case Nil
  then show ?case by simp
next
  case (Cons g gs)
  show ?case
  proof (cases j)
    case 0
    with Cons.prems have "x \<notin> set gs"
      by (auto simp: in_set_conv_nth)
    with 0 Cons.prems show ?thesis
      by (simp add: map_of_fill_notin update_conv')
  next
    case (Suc j')
    with Cons.prems have "j' < length gs" "gs ! j' = x"
      "\<forall>l. j' < l \<and> l < length gs \<longrightarrow> gs ! l \<noteq> x"
      by auto
    from Cons.IH [OF this] Suc show ?thesis by simp
  qed
qed

lemma dom_fill:
  "dom (map_of (ghost_map_fill gs k m)) = dom (map_of m) \<union> set gs"
  by (induction gs arbitrary: k m) (simp_all add: update_conv')

lemma keys_fill:
  "set (map fst (ghost_map_fill gs k m)) = set (map fst m) \<union> set gs"
  using dom_fill [of gs k m] by (simp add: dom_map_of_conv_image_fst)

subsection \<open>Initialization\<close>

lemma init_Inr:
  assumes "init cfg n n_local fast t (b, v) = Inr (b', v')"
  shows "is_initialized v'" and "is_closed v'"
    and "ptype v' = (if t = AUTOMATIC then (if n = n_local then SERIAL else PARALLEL) else t)"
    and "t \<noteq> GHOSTED"
    and "destroy_vec_on_exit v' = destroy_vec_on_exit v"
proof -
  from assms obtain b0 b1 v1 where p: "parallel_object_only cfg b = Inr b0"
    and c0: "(if is_initialized v then clear cfg (b0, v) else Inr (b0, v)) = Inr (b1, v1)"
    by (auto simp: init_def bindE_eq_Inr cong: if_cong)
  have c: "bindE (parallel_object_only cfg b)
          (\<lambda>b0. if is_initialized v then clear cfg (b0, v) else Inr (b0, v)) = Inr (b1, v1)"
    by (simp add: p c0)
  note c' = clear_guard_Inr [OF c]
  let ?t = "if t = AUTOMATIC then (if n = n_local then SERIAL else PARALLEL) else t"
  from assms p c0 obtain b3 h where
    z: "(if \<not> fast
         then zero_vec cfg (b3, v1\<lparr>ptype := ?t, vec := h, is_initialized := True, is_closed := True\<rparr>)
         else Inr (b3, v1\<lparr>ptype := ?t, vec := h, is_initialized := True, is_closed := True\<rparr>))
        = Inr (b', v')"
    and ty: "?t = SERIAL \<or> ?t = PARALLEL"
    by (auto simp: init_def bindE_eq_Inr Let_def split: if_splits cong: if_cong)
  from z have v': "v' = v1\<lparr>ptype := ?t, vec := h, is_initialized := True, is_closed := True\<rparr>
      \<or> v' = v1\<lparr>ptype := ?t, vec := h, is_initialized := True, is_closed := True,
               array_is_present := False\<rparr>"
    by (auto split: if_splits dest: zero_vec_Inr(1))
  from v' show "is_initialized v'" by auto
  from v' show "is_closed v'" by auto
  from v' show "ptype v' = ?t" by auto
  from ty show "t \<noteq> GHOSTED" by (auto split: if_splits)
  from v' c' show "destroy_vec_on_exit v' = destroy_vec_on_exit v" by auto
qed


lemma init_ghost_Inr:
  fixes ghost :: "'a::len word list"
  assumes "init_ghost cfg n n_local ghost fast t (b, v) = Some (Inr (b', v'))"
  shows "is_initialized v'" and "is_closed v'" and "ptype v' = GHOSTED"
    and "destroy_vec_on_exit v' = destroy_vec_on_exit v"
    and "global_to_local_map v' =
           ghost_map_fill ghost 0 (if is_initialized v then [] else global_to_local_map v)"
    and "vec v' = VecObj (fresh b)"
    and "objs b' (fresh b) = Some \<lparr>glob_size = n, own_first = layout b n_local n,
           own_last = layout b n_local n + n_local, ghosts = Some ghost, vtype = VECMPI\<rparr>"
    and "fails b' = fails b"
    and "array_is_present v' = (fast \<and> \<not> is_initialized v \<and> array_is_present v)"
    and "length ghost < 2 ^ LENGTH('a)"
proof -
  from assms obtain b1 v1 where
    c: "bindE (parallel_object_only cfg b)
          (\<lambda>b0. if is_initialized v then clear cfg (b0, v) else Inr (b0, v)) = Inr (b1, v1)"
    by (cases "bindE (parallel_object_only cfg b)
          (\<lambda>b0. if is_initialized v then clear cfg (b0, v) else Inr (b0, v))")
       (auto simp: init_ghost_def cong: if_cong)
  note c' = clear_guard_Inr [OF c]
  from assms c obtain m where
    l: "ghost_map_loop ghost 0 (global_to_local_map v1) = Some m"
    by (auto simp: init_ghost_def split: sum.splits option.splits cong: if_cong)
  from ghost_map_loop_bound [OF l] show len: "length ghost < 2 ^ LENGTH('a)" .
  from l ghost_map_loop_returns [OF len, of "global_to_local_map v1"]
  have m: "m = ghost_map_fill ghost 0 (global_to_local_map v1)" by simp
  let ?v3 = "v1\<lparr>ptype := GHOSTED, global_to_local_map := m, vec := VecObj (fresh b1),
                is_initialized := True, is_closed := True\<rparr>"
  let ?c = "VecCreateGhost n_local n (of_nat (length ghost)) ghost"
  let ?b3 = "b1\<lparr>objs := (objs b1)(fresh b1 \<mapsto> \<lparr>glob_size = n, own_first = layout b1 n_local n,
                   own_last = layout b1 n_local n + n_local, ghosts = Some ghost, vtype = VECMPI\<rparr>),
                fresh := Suc (fresh b1),
                calls := calls b1 @ [?c, VecSetFromOptions (VecObj (fresh b1))]\<rparr>"
  from assms c l have
    z: "(if \<not> fast then zero_vec cfg (?b3, ?v3) else Inr (?b3, ?v3)) = Inr (b', v')"
    by (auto simp: init_ghost_def bindE_eq_Inr petsc_create_Inr petsc_Inr Let_def
        split: sum.splits option.splits if_splits)
  from z have v': "v' = ?v3 \<or> v' = ?v3\<lparr>array_is_present := False\<rparr>"
    and vf: "\<not> fast \<longrightarrow> v' = ?v3\<lparr>array_is_present := False\<rparr>"
    and vt: "fast \<longrightarrow> v' = ?v3"
    by (auto split: if_splits dest: zero_vec_Inr(1))
  from z have b': "objs b' = objs ?b3 \<and> fails b' = fails ?b3"
    by (auto split: if_splits dest: zero_vec_Inr(2))
  from v' show "is_initialized v'" by auto
  from v' show "is_closed v'" by auto
  from v' show "ptype v' = GHOSTED" by auto
  from v' c' show "destroy_vec_on_exit v' = destroy_vec_on_exit v" by auto
  from v' c' m show "global_to_local_map v' =
           ghost_map_fill ghost 0 (if is_initialized v then [] else global_to_local_map v)"
    by auto
  from v' c' show "vec v' = VecObj (fresh b)" by auto
  from b' c' show "objs b' (fresh b) = Some \<lparr>glob_size = n, own_first = layout b n_local n,
           own_last = layout b n_local n + n_local, ghosts = Some ghost, vtype = VECMPI\<rparr>"
    by simp
  from b' c' show "fails b' = fails b" by simp
  from vf vt c' show "array_is_present v' = (fast \<and> \<not> is_initialized v \<and> array_is_present v)"
    by (cases fast) auto
qed

lemma init_other_Inr:
  assumes "init_other cfg fast (b, t, v) = Inr (b', t', v')"
  shows "is_initialized t'" and "is_closed t'"
    and "destroy_vec_on_exit t' = destroy_vec_on_exit t"
    and "destroy_vec_on_exit v' = destroy_vec_on_exit v"
proof -
  from assms obtain b1 t1 where
    c: "bindE (parallel_object_only cfg b)
          (\<lambda>b0. if is_initialized t then clear cfg (b0, t) else Inr (b0, t)) = Inr (b1, t1)"
    by (auto simp: init_other_def bindE_eq_Inr)
  note c' = clear_guard_Inr [OF c]
  from assms c obtain b2 v1 where
    r: "(if is_initialized v then priv_restore_array (b1, v) else Inr (b1, v)) = Inr (b2, v1)"
    by (auto simp: init_other_def bindE_eq_Inr)
  then have v1: "v1 = v \<or> v1 = v\<lparr>array_is_present := False\<rparr>"
    by (auto split: if_splits dest: priv_restore_array_Inr)
  let ?t2 = "t1\<lparr>global_to_local_map := global_to_local_map v1, is_closed := True,
                is_initialized := True, ptype := ptype v1\<rparr>"
  from assms c r obtain h b3 where
    z: "(if \<not> fast then zero_vec cfg (b3, ?t2\<lparr>vec := h\<rparr>) else Inr (b3, ?t2\<lparr>vec := h\<rparr>))
        = Inr (b', t')" and o: "v' = v1"
    by (auto simp: init_other_def bindE_eq_Inr Let_def)
  from z have t': "t' = ?t2\<lparr>vec := h\<rparr> \<or> t' = ?t2\<lparr>vec := h, array_is_present := False\<rparr>"
    by (auto split: if_splits dest: zero_vec_Inr(1))
  from t' show "is_initialized t'" by auto
  from t' show "is_closed t'" by auto
  from t' c' show "destroy_vec_on_exit t' = destroy_vec_on_exit t" by auto
  from o v1 show "destroy_vec_on_exit v' = destroy_vec_on_exit v" by auto
qed

subsection \<open>The ownership flag\<close>

lemma priv_get_array_flag:
  "priv_get_array ro (b, v) = Inr (b', v') \<Longrightarrow>
     destroy_vec_on_exit v' = destroy_vec_on_exit v"
  by (auto simp: priv_get_array_def bindE_eq_Inr Let_def split: if_splits)

lemma exec_flag:
  assumes "exec cfg p (b, v) = Some (Inr (b', v'))"
  shows "destroy_vec_on_exit v' = destroy_vec_on_exit v"
proof (cases p)
  case (Init n n_local fast t)
  with assms show ?thesis by (simp add: init_Inr(5))
next
  case (InitN n fast t)
  with assms show ?thesis by (simp add: init_n_def init_Inr(5))
next
  case (InitGhost n n_local ghost fast t)
  with assms show ?thesis by (simp add: init_ghost_Inr(4))
next
  case (InitOther other fast)
  with assms show ?thesis
    by (auto simp: bindE_eq_Inr dest: init_other_Inr(3))
next
  case Close
  with assms show ?thesis
    by (auto simp: close_def bindE_eq_Inr dest!: priv_restore_array_Inr)
next
  case Clear
  with assms show ?thesis
    by (auto dest!: clear_Inr(1) split: if_splits)
next
  case Zero
  with assms show ?thesis
    by (auto dest!: zero_vec_Inr(1))
next
  case (OperatorCall i)
  with assms show ?thesis
    by (auto simp: operator_call_def bindE_eq_Inr dest: priv_get_array_flag)
next
  case GetArray
  with assms show ?thesis
    by (auto simp: get_array_def bindE_eq_Inr dest: priv_get_array_flag)
next
  case GetArrayRead
  with assms show ?thesis
    by (auto simp: get_array_read_def bindE_eq_Inr dest: priv_get_array_flag)
next
  case RestoreArray
  with assms show ?thesis
    by (auto simp: restore_array_def dest!: priv_restore_array_Inr)
next
  case Min
  with assms show ?thesis
    by (auto simp: min_vec_def bindE_eq_Inr dest!: priv_restore_array_Inr)
next
  case Max
  with assms show ?thesis
    by (auto simp: max_vec_def bindE_eq_Inr dest!: priv_restore_array_Inr)
qed

lemma run_flag:
  "run cfg ps (b, v) = Some (Inr (b', v')) \<Longrightarrow>
     destroy_vec_on_exit v' = destroy_vec_on_exit v"
proof (induction ps arbitrary: b v)
  case Nil
  then show ?case by simp
next
  case (Cons p ps)
  then obtain b1 v1 where e: "exec cfg p (b, v) = Some (Inr (b1, v1))"
    and r: "run cfg ps (b1, v1) = Some (Inr (b', v'))"
    by (auto split: option.splits sum.splits)
  from Cons.IH [OF r] exec_flag [OF e] show ?case by simp
qed

subsection \<open>Positions in a ghost list\<close>

lemma distinct_last_occurrence:
  "distinct xs \<Longrightarrow> k < length xs \<Longrightarrow> \<forall>l. k < l \<and> l < length xs \<longrightarrow> xs ! l \<noteq> xs ! k"
  by (auto simp: distinct_conv_nth)

subsection \<open>Cached bounds across operations\<close>

lemma priv_restore_array_agrees:
  "priv_restore_array s = Inr s' \<Longrightarrow> cache_agrees h obj m s \<Longrightarrow> cache_agrees h obj m s'"
  by (cases s, cases s') (auto simp: cache_agrees_def dest!: priv_restore_array_Inr)

lemma priv_get_array_agrees:
  "priv_get_array ro s = Inr s' \<Longrightarrow> cache_agrees h obj m s \<Longrightarrow> cache_agrees h obj m s'"
  by (cases s, cases s')
     (auto simp: cache_agrees_def priv_get_array_def petsc_query_def bindE_eq_Inr petsc_Inr Let_def
        split: if_splits)

lemma petsc_agrees:
  "petsc c b = Inr b' \<Longrightarrow> cache_agrees h obj m (b, v) \<Longrightarrow> cache_agrees h obj m (b', v)"
  by (auto simp: cache_agrees_def petsc_Inr)

lemma parallel_object_only_agrees:
  "parallel_object_only cfg (fst s) = Inr b0 \<Longrightarrow> cache_agrees h obj m s \<Longrightarrow>
     cache_agrees h obj m (b0, snd s)"
  by (cases s) (auto simp: cache_agrees_def dest!: parallel_object_only_Inr)

lemma exec_agrees:
  assumes "exec cfg p s = Some (Inr s')" and "keeps_storage p" and "cache_agrees h obj m s"
  shows "cache_agrees h obj m s'"
proof (cases p)
  case Close
  with assms(1) obtain b0 s1 where p: "parallel_object_only cfg (fst s) = Inr b0"
    and r: "priv_restore_array (b0, snd s) = Inr s1"
    and c: "snd s' = (snd s1)\<lparr>is_closed := True\<rparr>" "objs (fst s') = objs (fst s1)"
    by (cases s') (auto simp: close_def bindE_eq_Inr petsc_Inr split: if_splits)
  from priv_restore_array_agrees [OF r parallel_object_only_agrees [OF p assms(3)]] c
  show ?thesis
    by (cases s', cases s1) (auto simp: cache_agrees_def)
next
  case Zero
  with assms(1) obtain b v b' v' where s: "s = (b, v)" "s' = (b', v')"
    and z: "zero_vec cfg (b, v) = Inr (b', v')"
    by (cases s, cases s') simp
  from zero_vec_Inr(1) [OF z] zero_vec_Inr(2) [OF z] assms(3) s show ?thesis
    by (simp add: cache_agrees_def)
next
  case (OperatorCall i)
  with assms(1) have "priv_get_array True s = Inr s'"
    by (auto simp: operator_call_def bindE_eq_Inr)
  from priv_get_array_agrees [OF this assms(3)] show ?thesis .
next
  case GetArray
  with assms(1) obtain b v where s: "s = (b, v)"
    and g: "priv_get_array False (b, v\<lparr>values_manually_retrieved := True\<rparr>) = Inr s'"
    by (cases s) (auto simp: get_array_def bindE_eq_Inr)
  from assms(3) s have "cache_agrees h obj m (b, v\<lparr>values_manually_retrieved := True\<rparr>)"
    by (simp add: cache_agrees_def)
  from priv_get_array_agrees [OF g this] show ?thesis .
next
  case GetArrayRead
  with assms(1) obtain b v where s: "s = (b, v)"
    and g: "priv_get_array True (b, v\<lparr>values_manually_retrieved := True\<rparr>) = Inr s'"
    by (cases s) (auto simp: get_array_read_def bindE_eq_Inr)
  from assms(3) s have "cache_agrees h obj m (b, v\<lparr>values_manually_retrieved := True\<rparr>)"
    by (simp add: cache_agrees_def)
  from priv_get_array_agrees [OF g this] show ?thesis .
next
  case RestoreArray
  with assms(1) obtain b v where s: "s = (b, v)"
    and g: "priv_restore_array (b, v\<lparr>values_manually_retrieved := False\<rparr>) = Inr s'"
    by (cases s) (auto simp: restore_array_def)
  from assms(3) s have "cache_agrees h obj m (b, v\<lparr>values_manually_retrieved := False\<rparr>)"
    by (simp add: cache_agrees_def)
  from priv_restore_array_agrees [OF g this] show ?thesis .
next
  case Min
  with assms(1) obtain b0 s1 where p: "parallel_object_only cfg (fst s) = Inr b0"
    and r: "priv_restore_array (b0, snd s) = Inr s1"
    and c: "snd s' = snd s1" "objs (fst s') = objs (fst s1)"
    by (cases s') (auto simp: min_vec_def bindE_eq_Inr petsc_Inr)
  from priv_restore_array_agrees [OF r parallel_object_only_agrees [OF p assms(3)]] c
  show ?thesis
    by (cases s', cases s1) (auto simp: cache_agrees_def)
next
  case Max
  with assms(1) obtain b0 s1 where p: "parallel_object_only cfg (fst s) = Inr b0"
    and r: "priv_restore_array (b0, snd s) = Inr s1"
    and c: "snd s' = snd s1" "objs (fst s') = objs (fst s1)"
    by (cases s') (auto simp: max_vec_def bindE_eq_Inr petsc_Inr)
  from priv_restore_array_agrees [OF r parallel_object_only_agrees [OF p assms(3)]] c
  show ?thesis
    by (cases s', cases s1) (auto simp: cache_agrees_def)
qed (use assms(2) in simp_all)

lemma run_agrees:
  "run cfg ps s = Some (Inr s') \<Longrightarrow> \<forall>p \<in> set ps. keeps_storage p \<Longrightarrow>
     cache_agrees h obj m s \<Longrightarrow> cache_agrees h obj m s'"
proof (induction ps arbitrary: s)
  case Nil
  then show ?case by simp
next
  case (Cons p ps)
  then obtain s1 where e: "exec cfg p s = Some (Inr s1)" and r: "run cfg ps s1 = Some (Inr s')"
    by (auto split: option.splits sum.splits)
  from exec_agrees [OF e _ Cons.prems(3)] Cons.prems(2) have "cache_agrees h obj m s1" by simp
  with Cons.IH [OF r] Cons.prems(2) show ?case by simp
qed

lemma init_ghost_agrees:
  fixes ghost :: "'a::len word list"
  assumes i: "init_ghost cfg n n_local ghost fast t (b, v) = Some (Inr s1)"
    and p: "is_initialized v \<or> (global_to_local_map v = [] \<and> \<not> array_is_present v)"
  shows "cache_agrees (fresh b)
           \<lparr>glob_size = n, own_first = layout b n_local n,
            own_last = layout b n_local n + n_local, ghosts = Some ghost, vtype = VECMPI\<rparr>
           (ghost_map_fill ghost 0 []) s1"
proof (cases s1)
  case (Pair b' v')
  note f = init_ghost_Inr [OF i [unfolded Pair]]
  from f(1,5,6,7,9) p Pair show ?thesis
    by (auto simp: cache_agrees_def)
qed

lemma lookup_any:
  fixes v :: "'a::len word PetscVector"
  assumes f: "first_local_index cfg b v = Inr first_i"
    and l: "last_local_index cfg b v = Inr last_i"
  shows "map_global_to_local_index cfg b v x =
           (if first_i \<le> x \<and> x < last_i then Inr (x - first_i)
            else case map_of (global_to_local_map v) x of
                   None \<Rightarrow> if ndebug cfg then Inl UndefinedBehavior
                           else Inl (NoIndex x first_i last_i (fst ` set (global_to_local_map v)))
                 | Some second \<Rightarrow> Inr (second + last_i - first_i))"
proof -
  from f have i: "libmesh_assert cfg (is_initialized v) = (Inr () :: 'a word error + unit)"
    by (auto simp: first_local_index_def bindE_eq_Inr)
  from f l have rng: "(if array_is_present v then Inr (first_cached v, last_cached v)
                         else petsc_ownership_range (vec v) b) = Inr (first_i, last_i)"
    by (auto simp: first_local_index_def last_local_index_def i bindE_eq_Inr split: if_splits)
  show ?thesis
    unfolding map_global_to_local_index_def i rng
    by (simp split: option.splits)
qed

lemma lookup_agrees:
  fixes obj :: "'a::len word vec_obj"
  assumes a: "cache_agrees h obj m (b, v)"
    and f: "first_local_index cfg b v = Inr first_i"
    and l: "last_local_index cfg b v = Inr last_i"
  shows "first_i = own_first obj" and "last_i = own_last obj"
    and "map_global_to_local_index cfg b v x =
           (if first_i \<le> x \<and> x < last_i then Inr (x - first_i)
            else case map_of m x of
                   None \<Rightarrow> if ndebug cfg then Inl UndefinedBehavior
                           else Inl (NoIndex x first_i last_i (fst ` set (global_to_local_map v)))
                 | Some second \<Rightarrow> Inr ((last_i - first_i) + second))"
proof -
  from a f show 1: "first_i = own_first obj"
    by (auto simp: cache_agrees_def first_local_index_def libmesh_assert_def
        petsc_ownership_range_def petsc_query_def bindE_eq_Inr split: if_splits)
  from a l show 2: "last_i = own_last obj"
    by (auto simp: cache_agrees_def last_local_index_def libmesh_assert_def
        petsc_ownership_range_def petsc_query_def bindE_eq_Inr split: if_splits)
  from a f l have rng: "(if array_is_present v then Inr (first_cached v, last_cached v)
                         else petsc_ownership_range (vec v) b) = Inr (first_i, last_i)"
    by (auto simp: cache_agrees_def first_local_index_def last_local_index_def
        libmesh_assert_def bindE_eq_Inr split: if_splits)
  from a f have i: "libmesh_assert cfg (is_initialized v) = (Inr () :: 'a word error + unit)"
    by (simp add: cache_agrees_def libmesh_assert_def)
  have e: "\<And>second. second + last_i - first_i = (last_i - first_i) + second"
    by (simp add: algebra_simps)
  from a have m: "global_to_local_map v = m" by (simp add: cache_agrees_def)
  show "map_global_to_local_index cfg b v x =
           (if first_i \<le> x \<and> x < last_i then Inr (x - first_i)
            else case map_of m x of
                   None \<Rightarrow> if ndebug cfg then Inl UndefinedBehavior
                           else Inl (NoIndex x first_i last_i (fst ` set (global_to_local_map v)))
                 | Some second \<Rightarrow> Inr ((last_i - first_i) + second))"
    unfolding map_global_to_local_index_def i rng
    by (simp add: e m split: option.splits)
qed

section \<open>The claims\<close>

text \<open>
  C1, as the code has it. A successful \<^verbatim>\<open>init\<close> call (plain, with the local size
  defaulted, ghosted, or from another vector) leaves the vector initialized with
  \<^verbatim>\<open>_is_closed\<close> set: it is in the Closed state, not the Open one.
\<close>

theorem init_enters_Closed:
  "(init cfg n n_local fast t (b, v) = Inr (b', v') \<longrightarrow> lifecycle_of v' = Closed) \<and>
   (init_n cfg n fast t (b, v) = Inr (b', v') \<longrightarrow> lifecycle_of v' = Closed) \<and>
   (init_ghost cfg n n_local ghost fast t (b, v) = Some (Inr (b', v')) \<longrightarrow>
      lifecycle_of v' = Closed) \<and>
   (init_other cfg fast (b, v, other) = Inr (b', v', other') \<longrightarrow> lifecycle_of v' = Closed)"
  by (auto simp: lifecycle_of_def init_n_def
      dest: init_Inr(1,2) init_ghost_Inr(1,2) init_other_Inr(1,2))

theorem init_enters_Closed_witness:
  "init cfg_dbg 4 4 False AUTOMATIC (petsc0, PetscVector_ctor AUTOMATIC)
     = Inr (serial_petsc, serial_vec) \<and>
   init_n cfg_dbg 4 False AUTOMATIC (petsc0, PetscVector_ctor AUTOMATIC)
     = Inr (serial_petsc, serial_vec) \<and>
   lifecycle_of serial_vec = Closed \<and>
   init_ghost cfg_dbg 6 2 [4, 5] False GHOSTED (petsc0, PetscVector_ctor GHOSTED)
     = Some (Inr (ghost_petsc 6 2 [4, 5], ghost_vec [(4, 0), (5, 1)])) \<and>
   lifecycle_of (ghost_vec [(4, 0), (5, 1)]) = Closed \<and>
   init_other cfg_dbg True (serial_petsc, PetscVector_ctor AUTOMATIC, serial_vec)
     = Inr (serial_petsc\<lparr>objs := (objs serial_petsc)(1 \<mapsto> \<lparr>glob_size = 4, own_first = 0,
                own_last = 4, ghosts = None, vtype = VECSEQ\<rparr>),
              fresh := 2, calls := calls serial_petsc @ [ParallelObjectOnly, VecDuplicate (VecObj 0)]\<rparr>,
            serial_vec\<lparr>vec := VecObj 1\<rparr>, serial_vec) \<and>
   lifecycle_of (serial_vec\<lparr>vec := VecObj 1\<rparr>) = Closed"
proof -
  let ?b2 = "serial_petsc\<lparr>objs := (objs serial_petsc)(1 \<mapsto> \<lparr>glob_size = 4, own_first = 0,
                own_last = 4, ghosts = None, vtype = VECSEQ\<rparr>),
              fresh := 2, calls := calls serial_petsc @ [ParallelObjectOnly, VecDuplicate (VecObj 0)]\<rparr>"
  have h1: "init cfg_dbg 4 4 False AUTOMATIC (petsc0, PetscVector_ctor AUTOMATIC)
     = Inr (serial_petsc, serial_vec)"
    by (simp add: eval_defs ex_defs Let_def)
  have h2: "init_n cfg_dbg 4 False AUTOMATIC (petsc0, PetscVector_ctor AUTOMATIC)
     = Inr (serial_petsc, serial_vec)"
    using h1 by (simp add: init_n_def)
  have h3: "init_ghost cfg_dbg 6 2 [4, 5] False GHOSTED (petsc0, PetscVector_ctor GHOSTED)
     = Some (Inr (ghost_petsc 6 2 [4, 5], ghost_vec [(4, 0), (5, 1)]))"
    by (simp add: eval_defs ex_defs ghost_map_loop_returns Let_def)
  have h4: "init_other cfg_dbg True (serial_petsc, PetscVector_ctor AUTOMATIC, serial_vec)
     = Inr (?b2, serial_vec\<lparr>vec := VecObj 1\<rparr>, serial_vec)"
    by (simp add: eval_defs ex_defs Let_def)
  from init_enters_Closed [where cfg = cfg_dbg and n = 4 and n_local = 4 and fast = False
      and t = AUTOMATIC and b = petsc0 and v = "PetscVector_ctor AUTOMATIC"
      and b' = serial_petsc and v' = serial_vec] h1
  have c1: "lifecycle_of serial_vec = Closed" by blast
  from init_enters_Closed [where cfg = cfg_dbg and n = 6 and n_local = 2 and fast = False
      and t = GHOSTED and b = petsc0 and v = "PetscVector_ctor GHOSTED"
      and b' = "ghost_petsc 6 2 [4, 5]" and v' = "ghost_vec [(4, 0), (5, 1)]"
      and ghost = "[4, 5]"] h3
  have c3: "lifecycle_of (ghost_vec [(4, 0), (5, 1)]) = Closed" by blast
  from init_enters_Closed [where cfg = cfg_dbg and fast = True and b = serial_petsc
      and v = "PetscVector_ctor AUTOMATIC" and b' = ?b2
      and v' = "serial_vec\<lparr>vec := VecObj 1\<rparr>" and other = serial_vec
      and other' = serial_vec] h4
  have c4: "lifecycle_of (serial_vec\<lparr>vec := VecObj 1\<rparr>) = Closed" by blast
  from h1 h2 h3 h4 c1 c3 c4 show ?thesis by blast
qed

text \<open>
  The claim as the specification states it fails at the first successful call: the new
  vector is Closed.
\<close>

theorem init_Open_counterexample:
  "init cfg_dbg 4 4 False AUTOMATIC (petsc0, PetscVector_ctor AUTOMATIC)
     = Inr (serial_petsc, serial_vec) \<and>
   lifecycle_of serial_vec = Closed \<and>
   lifecycle_of serial_vec \<noteq> Open"
  by (simp add: eval_defs ex_defs lifecycle_of_def Let_def)

text \<open>
  C2, as the code has it. For every vector, of any storage type and however it was made,
  let \<open>first\<close> and \<open>last\<close> be what \<^verbatim>\<open>first_local_index()\<close> and \<^verbatim>\<open>last_local_index()\<close> return.
  Then \<^verbatim>\<open>map_global_to_local_index(i)\<close> returns \<open>i - first\<close> for \<open>i\<close> in \<open>[first, last)\<close>; for
  \<open>i\<close> outside the range that has an entry \<open>s\<close> in the ghost map it returns
  \<open>s + last - first\<close>; and for \<open>i\<close> outside the range without an entry a build with
  assertions raises the error that names \<open>i\<close>, the range and the keys of the ghost map,
  and an optimized build has undefined behaviour.

  Take further a vector that has been initialized with a ghost list, being at that call
  either initialized already or without any entry in its ghost map and without a cached
  view (as a vector is when it is new or cleared), and has then gone through any run of
  \<^verbatim>\<open>close\<close>, \<^verbatim>\<open>zero\<close>, element reads, \<^verbatim>\<open>get_array\<close>, \<^verbatim>\<open>get_array_read\<close>, \<^verbatim>\<open>restore_array\<close>,
  \<^verbatim>\<open>min\<close> and \<^verbatim>\<open>max\<close>. Then \<open>last - first\<close> is \<open>n_local\<close>, the keys of the ghost map are
  the entries of the ghost list, and the entry of an index is the last position \<open>k\<close> at
  which the ghost list holds it: such an index, when it lies outside the range, is mapped
  to \<open>n_local + k\<close>, so that in a ghost list without repetitions the \<open>k\<close>-th entry, when it
  lies outside the range, is mapped to \<open>n_local + k\<close>; an index outside the range that is
  not in the ghost list gets the error.
\<close>

theorem map_global_to_local_index_cases:
  fixes ghost :: "'a::len word list"
  shows
  "(first_local_index cfg b v = Inr first_i \<and> last_local_index cfg b v = Inr last_i \<longrightarrow>
      (first_i \<le> i \<and> i < last_i \<longrightarrow>
         map_global_to_local_index cfg b v i = Inr (i - first_i)) \<and>
      (\<not> (first_i \<le> i \<and> i < last_i) \<and> map_of (global_to_local_map v) i = Some s \<longrightarrow>
         map_global_to_local_index cfg b v i = Inr (s + last_i - first_i)) \<and>
      (\<not> (first_i \<le> i \<and> i < last_i) \<and> i \<notin> fst ` set (global_to_local_map v) \<longrightarrow>
         map_global_to_local_index cfg b v i =
           (if ndebug cfg then Inl UndefinedBehavior
            else Inl (NoIndex i first_i last_i (fst ` set (global_to_local_map v)))))) \<and>
   (init_ghost cfg n n_local ghost fast t (b0, v0) = Some (Inr s1) \<and>
    (is_initialized v0 \<or> (global_to_local_map v0 = [] \<and> \<not> array_is_present v0)) \<and>
    run cfg ps s1 = Some (Inr (b, v)) \<and> (\<forall>p \<in> set ps. keeps_storage p) \<and>
    first_local_index cfg b v = Inr first_i \<and> last_local_index cfg b v = Inr last_i \<longrightarrow>
      last_i - first_i = n_local \<and>
      fst ` set (global_to_local_map v) = set ghost \<and>
      (k < length ghost \<and> (\<forall>l. k < l \<and> l < length ghost \<longrightarrow> ghost ! l \<noteq> ghost ! k) \<longrightarrow>
         map_of (global_to_local_map v) (ghost ! k) = Some (of_nat k)) \<and>
      (\<not> (first_i \<le> i \<and> i < last_i) \<and> k < length ghost \<and> ghost ! k = i \<and>
       (\<forall>l. k < l \<and> l < length ghost \<longrightarrow> ghost ! l \<noteq> i) \<longrightarrow>
         map_global_to_local_index cfg b v i = Inr (n_local + of_nat k)) \<and>
      (distinct ghost \<and> k < length ghost \<and>
       \<not> (first_i \<le> ghost ! k \<and> ghost ! k < last_i) \<longrightarrow>
         map_global_to_local_index cfg b v (ghost ! k) = Inr (n_local + of_nat k)) \<and>
      (\<not> (first_i \<le> i \<and> i < last_i) \<and> i \<notin> set ghost \<longrightarrow>
         map_global_to_local_index cfg b v i =
           (if ndebug cfg then Inl UndefinedBehavior
            else Inl (NoIndex i first_i last_i (set ghost)))))"
  (is "(?HA \<longrightarrow> ?A1 \<and> ?A2 \<and> ?A3) \<and> (?HB \<longrightarrow> ?B1 \<and> ?B2 \<and> ?B3 \<and> ?B4 \<and> ?B5 \<and> ?B6)")
proof -
  have A: "?HA \<longrightarrow> ?A1 \<and> ?A2 \<and> ?A3"
  proof (intro impI, elim conjE)
    assume f: "first_local_index cfg b v = Inr first_i"
      and l: "last_local_index cfg b v = Inr last_i"
    note any = lookup_any [OF f l]
    have 1: ?A1 by (simp add: any)
    have 2: ?A2 by (simp add: any)
    have 3: ?A3
    proof (intro impI, elim conjE)
      assume n: "\<not> (first_i \<le> i \<and> i < last_i)"
        and "i \<notin> fst ` set (global_to_local_map v)"
      then have "map_of (global_to_local_map v) i = None"
        by (simp add: map_of_eq_None_iff)
      with n show "map_global_to_local_index cfg b v i =
           (if ndebug cfg then Inl UndefinedBehavior
            else Inl (NoIndex i first_i last_i (fst ` set (global_to_local_map v))))"
        by (auto simp: any)
    qed
    from 1 2 3 show "?A1 \<and> ?A2 \<and> ?A3" by blast
  qed
  have B: "?HB \<longrightarrow> ?B1 \<and> ?B2 \<and> ?B3 \<and> ?B4 \<and> ?B5 \<and> ?B6"
  proof (intro impI, elim conjE)
    assume g: "init_ghost cfg n n_local ghost fast t (b0, v0) = Some (Inr s1)"
      and pre: "is_initialized v0 \<or> (global_to_local_map v0 = [] \<and> \<not> array_is_present v0)"
      and r: "run cfg ps s1 = Some (Inr (b, v))" and ks: "\<forall>p \<in> set ps. keeps_storage p"
      and f: "first_local_index cfg b v = Inr first_i"
      and l: "last_local_index cfg b v = Inr last_i"
    let ?obj = "\<lparr>glob_size = n, own_first = layout b0 n_local n,
               own_last = layout b0 n_local n + n_local, ghosts = Some ghost, vtype = VECMPI\<rparr>"
    let ?m = "ghost_map_fill ghost 0 []"
    from run_agrees [OF r ks init_ghost_agrees [OF g pre]]
    have a: "cache_agrees (fresh b0) ?obj ?m (b, v)" .
    note la = lookup_agrees [OF a f l]
    from a have m: "global_to_local_map v = ?m" by (simp add: cache_agrees_def)
    from la(1,2) have 1: ?B1 by simp
    from keys_fill [of ghost 0 "[]"] have 2: ?B2 by (simp add: m)
    have 3: ?B3
      using map_of_fill_last [of k ghost "ghost ! k" 0 "[]"] by (simp add: m)
    have 4: ?B4
      using map_of_fill_last [of k ghost i 0 "[]"] by (auto simp: la(3) 1)
    have 5: ?B5
      using map_of_fill_last [of k ghost "ghost ! k" 0 "[]"] distinct_last_occurrence [of ghost k]
      by (auto simp: la(3) 1)
    have 6: ?B6
      using 2 by (auto simp: la(3) map_of_fill_notin)
    from 1 2 3 4 5 6 show "?B1 \<and> ?B2 \<and> ?B3 \<and> ?B4 \<and> ?B5 \<and> ?B6" by blast
  qed
  from A B show ?thesis by (rule conjI)
qed

theorem map_global_to_local_index_cases_witness:
  "first_local_index cfg_dbg serial_petsc serial_vec = Inr 0 \<and>
   last_local_index cfg_dbg serial_petsc serial_vec = Inr 4 \<and>
   ptype serial_vec = SERIAL \<and>
   map_global_to_local_index cfg_dbg serial_petsc serial_vec 1 = Inr 1 \<and>
   map_global_to_local_index cfg_dbg serial_petsc serial_vec 7 = Inl (NoIndex 7 0 4 {}) \<and>
   init_ghost cfg_dbg 6 2 [4, 5] False GHOSTED (petsc0, PetscVector_ctor GHOSTED)
     = Some (Inr (ghost_petsc 6 2 [4, 5], ghost_vec [(4, 0), (5, 1)])) \<and>
   global_to_local_map (PetscVector_ctor GHOSTED :: 32 word PetscVector) = [] \<and>
   \<not> array_is_present (PetscVector_ctor GHOSTED :: 32 word PetscVector) \<and>
   run cfg_dbg [OperatorCall 5] (ghost_petsc 6 2 [4, 5], ghost_vec [(4, 0), (5, 1)])
     = Some (Inr (cached_petsc, cached_vec)) \<and>
   keeps_storage (OperatorCall 5 :: 32 word vec_op) \<and>
   first_local_index cfg_dbg cached_petsc cached_vec = Inr 0 \<and>
   last_local_index cfg_dbg cached_petsc cached_vec = Inr 2 \<and>
   map_of (global_to_local_map cached_vec) 4 = Some 0 \<and>
   map_global_to_local_index cfg_dbg cached_petsc cached_vec 1 = Inr 1 \<and>
   map_global_to_local_index cfg_dbg cached_petsc cached_vec 4 = Inr 2 \<and>
   map_global_to_local_index cfg_dbg cached_petsc cached_vec 5 = Inr 3 \<and>
   map_global_to_local_index cfg_dbg cached_petsc cached_vec 3 = Inl (NoIndex 3 0 2 {4, 5})"
proof -
  let ?b = "ghost_petsc 6 2 [4, 5]" and ?v = "ghost_vec [(4, 0), (5, 1)]"
  let ?b' = cached_petsc
  have sf: "first_local_index cfg_dbg serial_petsc serial_vec = Inr 0"
    and sl: "last_local_index cfg_dbg serial_petsc serial_vec = Inr 4"
    and st: "ptype serial_vec = SERIAL"
    and sm: "global_to_local_map serial_vec = []"
    by (simp_all add: eval_defs ex_defs)
  have h: "init_ghost cfg_dbg 6 2 [4, 5] False GHOSTED (petsc0, PetscVector_ctor GHOSTED)
     = Some (Inr (?b, ?v))"
    by (simp add: eval_defs ex_defs ghost_map_loop_returns Let_def)
  have p: "global_to_local_map (PetscVector_ctor GHOSTED :: 32 word PetscVector) = []"
    "\<not> array_is_present (PetscVector_ctor GHOSTED :: 32 word PetscVector)"
    by (simp_all add: eval_defs)
  have r: "run cfg_dbg [OperatorCall 5] (?b, ?v) = Some (Inr (?b', cached_vec))"
    by (simp add: eval_defs ex_defs Let_def)
  have k: "\<forall>p \<in> set [OperatorCall 5 :: 32 word vec_op]. keeps_storage p" by simp
  have f: "first_local_index cfg_dbg ?b' cached_vec = Inr 0"
    and l: "last_local_index cfg_dbg ?b' cached_vec = Inr 2"
    by (simp_all add: eval_defs ex_defs)
  have m: "map_of (global_to_local_map cached_vec) 4 = Some 0"
    by (simp add: ex_defs)
  from map_global_to_local_index_cases [where cfg = cfg_dbg and b = serial_petsc
      and v = serial_vec and first_i = 0 and last_i = 4 and i = 1] sf sl
  have s1: "map_global_to_local_index cfg_dbg serial_petsc serial_vec 1 = Inr 1" by simp
  from map_global_to_local_index_cases [where cfg = cfg_dbg and b = serial_petsc
      and v = serial_vec and first_i = 0 and last_i = 4 and i = 7] sf sl sm
  have s2: "map_global_to_local_index cfg_dbg serial_petsc serial_vec 7
              = Inl (NoIndex 7 0 4 {})"
    by (simp add: cfg_dbg_def)
  note g = map_global_to_local_index_cases [where cfg = cfg_dbg and n = 6 and n_local = 2
      and ghost = "[4, 5]" and fast = False and t = GHOSTED and ?b0.0 = petsc0
      and ?v0.0 = "PetscVector_ctor GHOSTED" and ?s1.0 = "(?b, ?v)" and ps = "[OperatorCall 5]"
      and b = ?b' and v = cached_vec and first_i = 0 and last_i = 2]
  from g [where i = 1] f l
  have c1: "map_global_to_local_index cfg_dbg ?b' cached_vec 1 = Inr 1" by simp
  from g [where i = 4 and s = 0] f l m
  have c2: "map_global_to_local_index cfg_dbg ?b' cached_vec 4 = Inr 2" by simp
  from g [where i = 5 and k = 1] h p r k f l
  have c3: "map_global_to_local_index cfg_dbg ?b' cached_vec 5 = Inr 3" by simp
  from g [where i = 3] h p r k f l
  have c4: "map_global_to_local_index cfg_dbg ?b' cached_vec 3 = Inl (NoIndex 3 0 2 {4, 5})"
    by (simp add: cfg_dbg_def insert_commute)
  from sf sl st s1 s2 h p r f l m c1 c2 c3 c4 show ?thesis by simp
qed

text \<open>
  The claim as the specification states it fails where the ghost list repeats an index:
  with ghost list \<open>[5, 5]\<close> on a process that owns \<open>[0, 2)\<close>, index 5 is the entry of
  position 0 and is mapped to \<open>n_local + 1\<close>.
\<close>

theorem map_global_to_local_index_counterexample:
  "init_ghost cfg_dbg 6 2 [5, 5] False GHOSTED (petsc0, PetscVector_ctor GHOSTED)
     = Some (Inr (ghost_petsc 6 2 [5, 5], ghost_vec [(5, 1)])) \<and>
   petsc_ownership_range (vec (ghost_vec [(5, 1)])) (ghost_petsc 6 2 [5, 5]) = Inr (0, 2) \<and>
   [5, 5 :: 32 word] ! 0 = 5 \<and>
   map_global_to_local_index cfg_dbg (ghost_petsc 6 2 [5, 5]) (ghost_vec [(5, 1)]) 5 = Inr 3 \<and>
   map_global_to_local_index cfg_dbg (ghost_petsc 6 2 [5, 5]) (ghost_vec [(5, 1)]) 5
     \<noteq> Inr (2 + of_nat 0)"
  by (simp add: eval_defs ex_defs ghost_map_loop_returns Let_def)

text \<open>
  C3, as the code has it. No operation on a single instance changes
  \<^verbatim>\<open>_destroy_vec_on_exit\<close>: after any run of \<^verbatim>\<open>init\<close> (in its four forms), \<^verbatim>\<open>close\<close>,
  \<^verbatim>\<open>clear\<close>, \<^verbatim>\<open>zero\<close>, element reads, \<^verbatim>\<open>get_array\<close>, \<^verbatim>\<open>get_array_read\<close>,
  \<^verbatim>\<open>restore_array\<close>, \<^verbatim>\<open>min\<close> and \<^verbatim>\<open>max\<close> the flag is the one the run started with, and
  \<^verbatim>\<open>init(other)\<close> leaves the flag of the other vector alone as well. \<^verbatim>\<open>swap\<close> exchanges
  the flags of the two instances together with their backend handles, so that the flag
  stays with the storage it was decided for.
\<close>

theorem destroy_flag_frame:
  "(run cfg ps (b, v) = Some (Inr (b', v')) \<longrightarrow>
      destroy_vec_on_exit v' = destroy_vec_on_exit v) \<and>
   (init_other cfg fast (b, v, other) = Inr (b', v', other') \<longrightarrow>
      destroy_vec_on_exit other' = destroy_vec_on_exit other) \<and>
   (swap (A, B) = (A', B') \<longrightarrow>
      vec A' = vec B \<and> destroy_vec_on_exit A' = destroy_vec_on_exit B \<and>
      vec B' = vec A \<and> destroy_vec_on_exit B' = destroy_vec_on_exit A)"
proof (intro conjI impI)
  assume "run cfg ps (b, v) = Some (Inr (b', v'))"
  then show "destroy_vec_on_exit v' = destroy_vec_on_exit v" by (rule run_flag)
next
  assume "init_other cfg fast (b, v, other) = Inr (b', v', other')"
  then show "destroy_vec_on_exit other' = destroy_vec_on_exit other" by (rule init_other_Inr(4))
next
  assume s: "swap (A, B) = (A', B')"
  then show "vec A' = vec B" "destroy_vec_on_exit A' = destroy_vec_on_exit B"
    "vec B' = vec A" "destroy_vec_on_exit B' = destroy_vec_on_exit A"
    by (auto simp: swap_def NumericVector_swap_def)
qed

theorem destroy_flag_frame_witness:
  "run cfg_dbg [Init 4 4 False AUTOMATIC, OperatorCall 1, Close, Clear]
       (petsc0, PetscVector_ctor AUTOMATIC)
     = Some (Inr (serial_petsc\<lparr>objs := (objs serial_petsc)(0 := None),
                    calls := calls serial_petsc @
                      [VecGetArrayRead (VecObj 0), ParallelObjectOnly,
                       VecRestoreArrayRead (VecObj 0),
                       VecAssemblyBegin (VecObj 0), VecAssemblyEnd (VecObj 0),
                       ParallelObjectOnly, VecDestroy (VecObj 0)]\<rparr>,
                  serial_vec\<lparr>is_closed := False, is_initialized := False,
                    first_cached := 0, last_cached := 4, local_size_cached := 4,
                    read_only_values := VecObj 0, values_read_only := True\<rparr>)) \<and>
   destroy_vec_on_exit (PetscVector_ctor AUTOMATIC :: 32 word PetscVector) \<and>
   destroy_vec_on_exit serial_vec \<and>
   init_other cfg_dbg True (serial_petsc, PetscVector_ctor AUTOMATIC, wrapped_vec)
     = Inr (serial_petsc\<lparr>objs := (objs serial_petsc)(1 \<mapsto> \<lparr>glob_size = 4, own_first = 0,
                own_last = 4, ghosts = None, vtype = VECSEQ\<rparr>),
              fresh := 2, calls := calls serial_petsc @ [ParallelObjectOnly, VecDuplicate (VecObj 0)]\<rparr>,
            serial_vec\<lparr>vec := VecObj 1\<rparr>, wrapped_vec) \<and>
   \<not> destroy_vec_on_exit wrapped_vec \<and>
   vec (fst (swap (PetscVector_ctor AUTOMATIC, wrapped_vec))) = VecObj 0 \<and>
   \<not> destroy_vec_on_exit (fst (swap (PetscVector_ctor AUTOMATIC, wrapped_vec))) \<and>
   destroy_vec_on_exit (snd (swap (PetscVector_ctor AUTOMATIC, wrapped_vec)))"
proof -
  let ?bf = "serial_petsc\<lparr>objs := (objs serial_petsc)(0 := None),
                    calls := calls serial_petsc @
                      [VecGetArrayRead (VecObj 0), ParallelObjectOnly,
                       VecRestoreArrayRead (VecObj 0),
                       VecAssemblyBegin (VecObj 0), VecAssemblyEnd (VecObj 0),
                       ParallelObjectOnly, VecDestroy (VecObj 0)]\<rparr>"
  let ?vf = "serial_vec\<lparr>is_closed := False, is_initialized := False,
                    first_cached := 0, last_cached := 4, local_size_cached := 4,
                    read_only_values := VecObj 0, values_read_only := True\<rparr>"
  let ?b2 = "serial_petsc\<lparr>objs := (objs serial_petsc)(1 \<mapsto> \<lparr>glob_size = 4, own_first = 0,
                own_last = 4, ghosts = None, vtype = VECSEQ\<rparr>),
              fresh := 2, calls := calls serial_petsc @ [ParallelObjectOnly, VecDuplicate (VecObj 0)]\<rparr>"
  let ?A' = "fst (swap (PetscVector_ctor AUTOMATIC, wrapped_vec))"
  let ?B' = "snd (swap (PetscVector_ctor AUTOMATIC, wrapped_vec))"
  have h1: "run cfg_dbg [Init 4 4 False AUTOMATIC, OperatorCall 1, Close, Clear]
       (petsc0, PetscVector_ctor AUTOMATIC) = Some (Inr (?bf, ?vf))"
    by (simp add: eval_defs ex_defs Let_def)
  have h2: "init_other cfg_dbg True (serial_petsc, PetscVector_ctor AUTOMATIC, wrapped_vec)
     = Inr (?b2, serial_vec\<lparr>vec := VecObj 1\<rparr>, wrapped_vec)"
    by (simp add: eval_defs ex_defs Let_def)
  have h3: "swap (PetscVector_ctor AUTOMATIC, wrapped_vec) = (?A', ?B')" by simp
  have p: "destroy_vec_on_exit (PetscVector_ctor AUTOMATIC :: 32 word PetscVector)"
    "\<not> destroy_vec_on_exit wrapped_vec" "vec wrapped_vec = VecObj 0"
    by (simp_all add: eval_defs ex_defs)
  from destroy_flag_frame [where cfg = cfg_dbg and b = petsc0
      and v = "PetscVector_ctor AUTOMATIC" and b' = ?bf and v' = ?vf
      and ps = "[Init 4 4 False AUTOMATIC, OperatorCall 1, Close, Clear]"] h1 p
  have c1: "destroy_vec_on_exit ?vf" by blast
  then have c1': "destroy_vec_on_exit serial_vec" by simp
  from destroy_flag_frame [where A = "PetscVector_ctor AUTOMATIC" and B = wrapped_vec
      and A' = ?A' and B' = ?B'] h3 p
  have c3: "vec ?A' = VecObj 0 \<and> \<not> destroy_vec_on_exit ?A' \<and> destroy_vec_on_exit ?B'"
    by metis
  from h1 h2 p c1' c3 show ?thesis by blast
qed

text \<open>
  The claim as the specification states it fails for \<^verbatim>\<open>swap\<close>: an instance constructed
  to destroy its backend vector no longer does so after it is swapped with an instance
  that wraps a vector, and the wrapping instance does.
\<close>

theorem destroy_flag_counterexample:
  "PetscVector_wrap (VecObj 0) serial_petsc = Inr wrapped_vec \<and>
   destroy_vec_on_exit (PetscVector_ctor AUTOMATIC :: 32 word PetscVector) \<and>
   \<not> destroy_vec_on_exit (fst (swap (PetscVector_ctor AUTOMATIC, wrapped_vec))) \<and>
   \<not> destroy_vec_on_exit wrapped_vec \<and>
   destroy_vec_on_exit (snd (swap (PetscVector_ctor AUTOMATIC, wrapped_vec)))"
  by (simp add: eval_defs ex_defs PetscVector_wrap_def swap_def NumericVector_swap_def Let_def)

text \<open>
  C4. After the check of \<^verbatim>\<open>parallel_object_only()\<close> (which a build without it skips),
  \<^verbatim>\<open>close()\<close> first releases the array cache (nothing is done when no view is present),
  then makes the two assembly calls, begin before end, and, exactly when the storage type
  is Ghosted, the two ghost-update calls, begin before end, with \<^verbatim>\<open>INSERT_VALUES\<close>;
  afterwards \<^verbatim>\<open>closed()\<close> holds and no view is cached. The call succeeds when no backend
  call fails.
\<close>

theorem close_sequence:
  "(close cfg (b, v) = Inr (b', v') \<longrightarrow>
      (\<exists>b0 b1 v1. parallel_object_only cfg b = Inr b0 \<and>
         calls b0 = calls b @ parallel_only_ops cfg \<and>
         (\<not> parallel_only cfg \<longrightarrow> b0 = b) \<and>
         priv_restore_array (b0, v) = Inr (b1, v1) \<and>
         \<not> array_is_present v1 \<and>
         (\<not> array_is_present v \<longrightarrow> b1 = b0) \<and>
         calls b' = calls b1 @ [VecAssemblyBegin (vec v), VecAssemblyEnd (vec v)] @
           (if ptype v = GHOSTED
            then [VecGhostUpdateBegin (vec v) INSERT_VALUES SCATTER_FORWARD,
                  VecGhostUpdateEnd (vec v) INSERT_VALUES SCATTER_FORWARD]
            else []) \<and>
         is_closed v' \<and> \<not> array_is_present v' \<and>
         (is_initialized v \<longrightarrow> lifecycle_of v' = Closed))) \<and>
   ((\<forall>c. \<not> fails b c) \<longrightarrow> (\<exists>b' v'. close cfg (b, v) = Inr (b', v')))"
proof (intro conjI impI)
  assume c: "close cfg (b, v) = Inr (b', v')"
  then obtain b0 b1 v1 where p: "parallel_object_only cfg b = Inr b0"
    and r: "priv_restore_array (b0, v) = Inr (b1, v1)"
    by (auto simp: close_def bindE_eq_Inr)
  note p' = parallel_object_only_Inr [OF p]
  from p' have pc: "calls b0 = calls b @ parallel_only_ops cfg" by simp
  from p' have pn: "\<not> parallel_only cfg \<longrightarrow> b0 = b"
    by (simp add: parallel_only_ops_def)
  from priv_restore_array_Inr [OF r]
  have v1: "v1 = v\<lparr>array_is_present := False\<rparr>"
    and b1: "b1 = b0\<lparr>calls := calls b0 @ release_ops v\<rparr>" by simp_all
  have nb: "\<not> array_is_present v \<longrightarrow> b1 = b0"
    by (simp add: b1 release_ops_def)
  from c p r have rest:
    "calls b' = calls b1 @ [VecAssemblyBegin (vec v), VecAssemblyEnd (vec v)] @
           (if ptype v = GHOSTED
            then [VecGhostUpdateBegin (vec v) INSERT_VALUES SCATTER_FORWARD,
                  VecGhostUpdateEnd (vec v) INSERT_VALUES SCATTER_FORWARD]
            else []) \<and> is_closed v' \<and> \<not> array_is_present v' \<and>
         (is_initialized v \<longrightarrow> lifecycle_of v' = Closed)"
    by (auto simp: close_def v1 bindE_eq_Inr petsc_Inr lifecycle_of_def split: if_splits)
  from p pc pn r v1 nb rest
  show "\<exists>b0 b1 v1. parallel_object_only cfg b = Inr b0 \<and>
         calls b0 = calls b @ parallel_only_ops cfg \<and>
         (\<not> parallel_only cfg \<longrightarrow> b0 = b) \<and>
         priv_restore_array (b0, v) = Inr (b1, v1) \<and>
         \<not> array_is_present v1 \<and>
         (\<not> array_is_present v \<longrightarrow> b1 = b0) \<and>
         calls b' = calls b1 @ [VecAssemblyBegin (vec v), VecAssemblyEnd (vec v)] @
           (if ptype v = GHOSTED
            then [VecGhostUpdateBegin (vec v) INSERT_VALUES SCATTER_FORWARD,
                  VecGhostUpdateEnd (vec v) INSERT_VALUES SCATTER_FORWARD]
            else []) \<and>
         is_closed v' \<and> \<not> array_is_present v' \<and>
         (is_initialized v \<longrightarrow> lifecycle_of v' = Closed)"
    by simp
next
  assume "\<forall>c. \<not> fails b c"
  then show "\<exists>b' v'. close cfg (b, v) = Inr (b', v')"
    by (simp add: close_def parallel_object_only_ok priv_restore_array_ok petsc_ok)
qed

theorem close_sequence_witness:
  "close cfg_dbg (cached_petsc, cached_vec)
     = Inr (cached_petsc\<lparr>calls := calls cached_petsc @
              [ParallelObjectOnly,
               VecRestoreArrayRead (LocalForm 0), VecGhostRestoreLocalForm (VecObj 0),
               VecAssemblyBegin (VecObj 0), VecAssemblyEnd (VecObj 0),
               VecGhostUpdateBegin (VecObj 0) INSERT_VALUES SCATTER_FORWARD,
               VecGhostUpdateEnd (VecObj 0) INSERT_VALUES SCATTER_FORWARD]\<rparr>,
            cached_vec\<lparr>array_is_present := False\<rparr>) \<and>
   close cfg_opt (cached_petsc, cached_vec)
     = Inr (cached_petsc\<lparr>calls := calls cached_petsc @
              [VecRestoreArrayRead (LocalForm 0), VecGhostRestoreLocalForm (VecObj 0),
               VecAssemblyBegin (VecObj 0), VecAssemblyEnd (VecObj 0),
               VecGhostUpdateBegin (VecObj 0) INSERT_VALUES SCATTER_FORWARD,
               VecGhostUpdateEnd (VecObj 0) INSERT_VALUES SCATTER_FORWARD]\<rparr>,
            cached_vec\<lparr>array_is_present := False\<rparr>) \<and>
   (\<forall>c. \<not> fails cached_petsc c) \<and>
   priv_restore_array (cached_petsc, cached_vec)
     = Inr (cached_petsc\<lparr>calls := calls cached_petsc @
              [VecRestoreArrayRead (LocalForm 0), VecGhostRestoreLocalForm (VecObj 0)]\<rparr>,
            cached_vec\<lparr>array_is_present := False\<rparr>) \<and>
   lifecycle_of (cached_vec\<lparr>array_is_present := False\<rparr>) = Closed"
proof -
  let ?b' = "cached_petsc\<lparr>calls := calls cached_petsc @
              [ParallelObjectOnly,
               VecRestoreArrayRead (LocalForm 0), VecGhostRestoreLocalForm (VecObj 0),
               VecAssemblyBegin (VecObj 0), VecAssemblyEnd (VecObj 0),
               VecGhostUpdateBegin (VecObj 0) INSERT_VALUES SCATTER_FORWARD,
               VecGhostUpdateEnd (VecObj 0) INSERT_VALUES SCATTER_FORWARD]\<rparr>"
  let ?b'' = "cached_petsc\<lparr>calls := calls cached_petsc @
              [VecRestoreArrayRead (LocalForm 0), VecGhostRestoreLocalForm (VecObj 0),
               VecAssemblyBegin (VecObj 0), VecAssemblyEnd (VecObj 0),
               VecGhostUpdateBegin (VecObj 0) INSERT_VALUES SCATTER_FORWARD,
               VecGhostUpdateEnd (VecObj 0) INSERT_VALUES SCATTER_FORWARD]\<rparr>"
  let ?v' = "cached_vec\<lparr>array_is_present := False\<rparr>"
  have h: "close cfg_dbg (cached_petsc, cached_vec) = Inr (?b', ?v')"
    by (simp add: eval_defs ex_defs Let_def)
  have h': "close cfg_opt (cached_petsc, cached_vec) = Inr (?b'', ?v')"
    by (simp add: eval_defs ex_defs Let_def)
  have f: "\<forall>c. \<not> fails cached_petsc c"
    by (simp add: eval_defs ex_defs)
  have r: "priv_restore_array (cached_petsc, cached_vec)
     = Inr (cached_petsc\<lparr>calls := calls cached_petsc @
              [VecRestoreArrayRead (LocalForm 0), VecGhostRestoreLocalForm (VecObj 0)]\<rparr>,
            cached_vec\<lparr>array_is_present := False\<rparr>)"
    by (simp add: eval_defs ex_defs Let_def)
  have i: "is_initialized cached_vec"
    by (simp add: eval_defs ex_defs)
  from close_sequence [where cfg = cfg_dbg and b = cached_petsc and v = cached_vec
      and b' = ?b' and v' = ?v'] h i
  have "lifecycle_of ?v' = Closed" by blast
  with h h' f r show ?thesis by blast
qed

text \<open>
  C5. A successful \<^verbatim>\<open>init(n, n_local, fast, AUTOMATIC)\<close> leaves the storage type Serial
  when \<open>n = n_local\<close> and Parallel otherwise. A request for a Ghosted vector goes through
  the \<^verbatim>\<open>init\<close> that takes the ghost list, which makes the storage type Ghosted whatever
  \<open>n\<close> and \<open>n_local\<close> are; the \<^verbatim>\<open>init\<close> without a ghost list never succeeds for
  \<^verbatim>\<open>GHOSTED\<close>.
\<close>

theorem init_storage_type:
  "(init cfg n n_local fast AUTOMATIC (b, v) = Inr (b', v') \<longrightarrow>
      ptype v' = (if n = n_local then SERIAL else PARALLEL)) \<and>
   (init_ghost cfg n n_local ghost fast GHOSTED (b, v) = Some (Inr (b', v')) \<longrightarrow>
      ptype v' = GHOSTED) \<and>
   init cfg n n_local fast GHOSTED (b, v) \<noteq> Inr (b', v')"
  by (auto dest: init_Inr(3,4) init_ghost_Inr(3))

theorem init_storage_type_witness:
  "init cfg_dbg 4 4 False AUTOMATIC (petsc0, PetscVector_ctor AUTOMATIC)
     = Inr (serial_petsc, serial_vec) \<and>
   ptype serial_vec = SERIAL \<and>
   init cfg_dbg 6 2 True AUTOMATIC (petsc0 :: 32 word petsc, PetscVector_ctor AUTOMATIC)
     = Inr (petsc0\<lparr>objs := (objs petsc0)(0 \<mapsto> \<lparr>glob_size = 6, own_first = 0, own_last = 2,
                ghosts = None, vtype = VECMPI\<rparr>),
              fresh := 1, calls := [ParallelObjectOnly, VecCreateMPI 2 6, VecSetFromOptions (VecObj 0)]\<rparr>,
            (PetscVector_ctor PARALLEL)\<lparr>is_closed := True, is_initialized := True,
              vec := VecObj 0\<rparr>) \<and>
   init_ghost cfg_dbg 6 2 [4, 5] False GHOSTED (petsc0, PetscVector_ctor GHOSTED)
     = Some (Inr (ghost_petsc 6 2 [4, 5], ghost_vec [(4, 0), (5, 1)])) \<and>
   ptype (ghost_vec [(4, 0), (5, 1)]) = GHOSTED \<and>
   init_ghost cfg_dbg 2 2 [] False GHOSTED (petsc0, PetscVector_ctor GHOSTED)
     = Some (Inr (ghost_petsc 2 2 [], ghost_vec [])) \<and>
   ptype (ghost_vec []) = GHOSTED \<and>
   init cfg_dbg 6 2 False GHOSTED (petsc0, PetscVector_ctor GHOSTED :: 32 word PetscVector)
     = Inl AssertionFailure \<and>
   init cfg_opt 6 2 False GHOSTED (petsc0, PetscVector_ctor GHOSTED :: 32 word PetscVector)
     = Inl (UnsupportedType GHOSTED)"
proof -
  let ?bp = "petsc0\<lparr>objs := (objs petsc0)(0 \<mapsto> \<lparr>glob_size = 6, own_first = 0, own_last = 2,
                ghosts = None, vtype = VECMPI\<rparr>),
              fresh := 1, calls := [ParallelObjectOnly, VecCreateMPI 2 6, VecSetFromOptions (VecObj (0::nat))]\<rparr> :: 32 word petsc"
  let ?vp = "(PetscVector_ctor PARALLEL)\<lparr>is_closed := True, is_initialized := True,
              vec := VecObj 0\<rparr> :: 32 word PetscVector"
  have h1: "init cfg_dbg 4 4 False AUTOMATIC (petsc0, PetscVector_ctor AUTOMATIC)
     = Inr (serial_petsc, serial_vec)"
    by (simp add: eval_defs ex_defs Let_def)
  have h2: "init cfg_dbg 6 2 True AUTOMATIC (petsc0 :: 32 word petsc, PetscVector_ctor AUTOMATIC)
      = Inr (?bp, ?vp)"
    by (simp add: eval_defs ex_defs Let_def)
  have h3: "init_ghost cfg_dbg 6 2 [4, 5] False GHOSTED (petsc0, PetscVector_ctor GHOSTED)
     = Some (Inr (ghost_petsc 6 2 [4, 5], ghost_vec [(4, 0), (5, 1)]))"
    by (simp add: eval_defs ex_defs ghost_map_loop_returns Let_def)
  have h4: "init_ghost cfg_dbg 2 2 [] False GHOSTED (petsc0, PetscVector_ctor GHOSTED)
     = Some (Inr (ghost_petsc 2 2 [], ghost_vec []))"
    by (simp add: eval_defs ex_defs ghost_map_loop_returns Let_def)
  have h5: "init cfg_dbg 6 2 False GHOSTED (petsc0, PetscVector_ctor GHOSTED :: 32 word PetscVector)
     = Inl AssertionFailure"
    "init cfg_opt 6 2 False GHOSTED (petsc0, PetscVector_ctor GHOSTED :: 32 word PetscVector)
     = Inl (UnsupportedType GHOSTED)"
    by (simp_all add: eval_defs Let_def)
  from init_storage_type [where cfg = cfg_dbg and n = 4 and n_local = 4 and fast = False
      and b = petsc0 and v = "PetscVector_ctor AUTOMATIC" and b' = serial_petsc
      and v' = serial_vec] h1
  have c1: "ptype serial_vec = SERIAL" by simp
  from init_storage_type [where cfg = cfg_dbg and n = 6 and n_local = 2 and fast = False
      and b = petsc0 and v = "PetscVector_ctor GHOSTED" and b' = "ghost_petsc 6 2 [4, 5]"
      and v' = "ghost_vec [(4, 0), (5, 1)]" and ghost = "[4, 5]"] h3
  have c3: "ptype (ghost_vec [(4, 0), (5, 1)]) = GHOSTED" by blast
  from init_storage_type [where cfg = cfg_dbg and n = 2 and n_local = 2 and fast = False
      and b = petsc0 and v = "PetscVector_ctor GHOSTED" and b' = "ghost_petsc 2 2 []"
      and v' = "ghost_vec []" and ghost = "[]"] h4
  have c4: "ptype (ghost_vec []) = GHOSTED" by blast
  from h1 h2 h3 h4 h5 c1 c3 c4 show ?thesis by blast
qed




text \<open>
  C7, as the code has it. Take a vector as for C2: initialized with a ghost list and then
  put through any run of operations that keep its storage. When the ghost list holds the
  same index \<open>g\<close> at positions \<open>j < k\<close> and at no position after \<open>k\<close>, the ghost map
  holds for \<open>g\<close> the entry of position \<open>k\<close>, which is not that of position \<open>j\<close>, and
  \<^verbatim>\<open>map_global_to_local_index(g)\<close> returns \<open>n_local + k\<close> when \<open>g\<close> lies outside the
  ownership range; for \<open>g\<close> inside the range it returns \<open>g - first\<close> and the map is not
  consulted.
\<close>

theorem ghost_duplicate_last_wins:
  fixes ghost :: "'a::len word list"
  assumes "init_ghost cfg n n_local ghost fast t (b, v) = Some (Inr s1)"
    and "is_initialized v \<or> (global_to_local_map v = [] \<and> \<not> array_is_present v)"
    and "run cfg ps s1 = Some (Inr (b', v'))"
    and "\<forall>p \<in> set ps. keeps_storage p"
    and "first_local_index cfg b' v' = Inr first_i"
    and "last_local_index cfg b' v' = Inr last_i"
  shows "j < k \<and> k < length ghost \<and> ghost ! j = g \<and> ghost ! k = g \<and>
     (\<forall>l. k < l \<and> l < length ghost \<longrightarrow> ghost ! l \<noteq> g) \<longrightarrow>
       map_of (global_to_local_map v') g = Some (of_nat k) \<and>
       (of_nat k :: 'a word) \<noteq> of_nat j \<and>
       (\<not> (first_i \<le> g \<and> g < last_i) \<longrightarrow>
          map_global_to_local_index cfg b' v' g = Inr (n_local + of_nat k)) \<and>
       (first_i \<le> g \<and> g < last_i \<longrightarrow>
          map_global_to_local_index cfg b' v' g = Inr (g - first_i))"
proof (intro impI)
  assume a: "j < k \<and> k < length ghost \<and> ghost ! j = g \<and> ghost ! k = g \<and>
     (\<forall>l. k < l \<and> l < length ghost \<longrightarrow> ghost ! l \<noteq> g)"
  let ?obj = "\<lparr>glob_size = n, own_first = layout b n_local n,
               own_last = layout b n_local n + n_local, ghosts = Some ghost, vtype = VECMPI\<rparr>"
  let ?m = "ghost_map_fill ghost 0 []"
  from run_agrees [OF assms(3,4) init_ghost_agrees [OF assms(1,2)]]
  have c: "cache_agrees (fresh b) ?obj ?m (b', v')" .
  note l = lookup_agrees [OF c assms(5,6)]
  from c have gm: "global_to_local_map v' = ?m" by (simp add: cache_agrees_def)
  from l(1,2) have d: "last_i - first_i = n_local" by simp
  from a map_of_fill_last [of k ghost g 0 "[]"]
  have m: "map_of ?m g = Some (of_nat k)" by simp
  obtain b1 v1 where "s1 = (b1, v1)" by (cases s1)
  with assms(1) have "length ghost < 2 ^ LENGTH('a)"
    by (auto dest: init_ghost_Inr(10))
  with a have "k < 2 ^ LENGTH('a)" "j < 2 ^ LENGTH('a)" by simp_all
  then have "unat (of_nat k :: 'a word) = k" "unat (of_nat j :: 'a word) = j"
    by (simp_all add: unat_of_nat)
  with a have ne: "(of_nat k :: 'a word) \<noteq> of_nat j" by auto
  from m ne show "map_of (global_to_local_map v') g = Some (of_nat k) \<and>
       (of_nat k :: 'a word) \<noteq> of_nat j \<and>
       (\<not> (first_i \<le> g \<and> g < last_i) \<longrightarrow>
          map_global_to_local_index cfg b' v' g = Inr (n_local + of_nat k)) \<and>
       (first_i \<le> g \<and> g < last_i \<longrightarrow>
          map_global_to_local_index cfg b' v' g = Inr (g - first_i))"
    by (simp add: gm l(3) d)
qed

theorem ghost_duplicate_last_wins_witness:
  "init_ghost cfg_dbg 6 2 [5, 5] False GHOSTED (petsc0, PetscVector_ctor GHOSTED)
     = Some (Inr (ghost_petsc 6 2 [5, 5], ghost_vec [(5, 1)])) \<and>
   global_to_local_map (PetscVector_ctor GHOSTED :: 32 word PetscVector) = [] \<and>
   \<not> array_is_present (PetscVector_ctor GHOSTED :: 32 word PetscVector) \<and>
   run cfg_dbg [] (ghost_petsc 6 2 [5, 5], ghost_vec [(5, 1)])
     = Some (Inr (ghost_petsc 6 2 [5, 5], ghost_vec [(5, 1)])) \<and>
   first_local_index cfg_dbg (ghost_petsc 6 2 [5, 5]) (ghost_vec [(5, 1)]) = Inr 0 \<and>
   last_local_index cfg_dbg (ghost_petsc 6 2 [5, 5]) (ghost_vec [(5, 1)]) = Inr 2 \<and>
   [5, 5 :: 32 word] ! 0 = 5 \<and> [5, 5 :: 32 word] ! 1 = 5 \<and>
   map_of (global_to_local_map (ghost_vec [(5, 1)])) 5 = Some 1 \<and>
   map_global_to_local_index cfg_dbg (ghost_petsc 6 2 [5, 5]) (ghost_vec [(5, 1)]) 5 = Inr 3"
proof -
  let ?b = "ghost_petsc 6 2 [5, 5]" and ?v = "ghost_vec [(5, 1)]"
  have h: "init_ghost cfg_dbg 6 2 [5, 5] False GHOSTED (petsc0, PetscVector_ctor GHOSTED)
     = Some (Inr (?b, ?v))"
    by (simp add: eval_defs ex_defs ghost_map_loop_returns Let_def)
  have p: "global_to_local_map (PetscVector_ctor GHOSTED :: 32 word PetscVector) = []"
    "\<not> array_is_present (PetscVector_ctor GHOSTED :: 32 word PetscVector)"
    by (simp_all add: eval_defs)
  then have p': "is_initialized (PetscVector_ctor GHOSTED :: 32 word PetscVector) \<or>
     (global_to_local_map (PetscVector_ctor GHOSTED :: 32 word PetscVector) = [] \<and>
      \<not> array_is_present (PetscVector_ctor GHOSTED :: 32 word PetscVector))"
    by simp
  have r: "run cfg_dbg [] (?b, ?v) = Some (Inr (?b, ?v))" by simp
  have k: "\<forall>p \<in> set ([] :: 32 word vec_op list). keeps_storage p" by simp
  have f: "first_local_index cfg_dbg ?b ?v = Inr 0"
    and l: "last_local_index cfg_dbg ?b ?v = Inr 2"
    by (simp_all add: eval_defs ex_defs)
  from ghost_duplicate_last_wins [OF h p' r k f l, of 0 1 5]
  have c: "map_of (global_to_local_map ?v) 5 = Some 1 \<and>
           map_global_to_local_index cfg_dbg ?b ?v 5 = Inr 3"
    by (simp add: nth_Cons')
  from h p r f l c show ?thesis by simp
qed

text \<open>
  The claim as the specification states it fails in two ways. With ghost list
  \<open>[9, 9, 9]\<close> the positions 0 and 1 hold the same index, and the entry is that of
  position 2. With ghost list \<open>[1, 1]\<close> on a process that owns \<open>[0, 2)\<close>, index 1 is owned
  and is mapped to \<open>1 - first\<close>.
\<close>

theorem ghost_duplicate_counterexample:
  "init_ghost cfg_dbg 12 2 [9, 9, 9] False GHOSTED (petsc0, PetscVector_ctor GHOSTED)
     = Some (Inr (ghost_petsc 12 2 [9, 9, 9], ghost_vec [(9, 2)])) \<and>
   [9, 9, 9 :: 32 word] ! 0 = 9 \<and> [9, 9, 9 :: 32 word] ! 1 = 9 \<and>
   map_of (global_to_local_map (ghost_vec [(9, 2)])) 9 \<noteq> Some (of_nat 1) \<and>
   map_global_to_local_index cfg_dbg (ghost_petsc 12 2 [9, 9, 9]) (ghost_vec [(9, 2)]) 9
     = Inr 4 \<and>
   map_global_to_local_index cfg_dbg (ghost_petsc 12 2 [9, 9, 9]) (ghost_vec [(9, 2)]) 9
     \<noteq> Inr (2 + of_nat 1) \<and>
   init_ghost cfg_dbg 6 2 [1, 1] False GHOSTED (petsc0, PetscVector_ctor GHOSTED)
     = Some (Inr (ghost_petsc 6 2 [1, 1], ghost_vec [(1, 1)])) \<and>
   [1, 1 :: 32 word] ! 0 = 1 \<and> [1, 1 :: 32 word] ! 1 = 1 \<and>
   map_global_to_local_index cfg_dbg (ghost_petsc 6 2 [1, 1]) (ghost_vec [(1, 1)]) 1
     = Inr 1 \<and>
   map_global_to_local_index cfg_dbg (ghost_petsc 6 2 [1, 1]) (ghost_vec [(1, 1)]) 1
     \<noteq> Inr (2 + of_nat 1)"
  by (simp add: eval_defs ex_defs ghost_map_loop_returns Let_def)

text \<open>
  C8. Executing \<^verbatim>\<open>swap\<close> twice in succession restores both vectors: every member of
  both objects has its value from before the first swap.
\<close>

theorem swap_self_inverse: "swap (swap (A, B)) = (A, B)"
  by (simp add: swap_def NumericVector_swap_def)

text \<open>
  C9. \<^verbatim>\<open>swap\<close> exchanges \<^verbatim>\<open>_vec\<close>, \<^verbatim>\<open>_destroy_vec_on_exit\<close>, \<^verbatim>\<open>_global_to_local_map\<close>,
  \<^verbatim>\<open>_array_is_present\<close>, \<^verbatim>\<open>_local_form\<close> and \<^verbatim>\<open>_values\<close>, and leaves to each object its
  own \<^verbatim>\<open>_first\<close>, \<^verbatim>\<open>_last\<close>, \<^verbatim>\<open>_local_size\<close>, \<^verbatim>\<open>_read_only_values\<close>,
  \<^verbatim>\<open>_values_manually_retrieved\<close> and \<^verbatim>\<open>_values_read_only\<close>. So when the first object
  holds a cached view, the second one holds, after one swap, the first one's storage with
  the view marked present, beside the bounds it had cached itself: its
  \<^verbatim>\<open>first_local_index()\<close> and \<^verbatim>\<open>last_local_index()\<close> answer with them.
\<close>

theorem swap_frame:
  "swap (A, B) = (A', B') \<Longrightarrow>
     (vec A' = vec B \<and> vec B' = vec A \<and>
      destroy_vec_on_exit A' = destroy_vec_on_exit B \<and>
      destroy_vec_on_exit B' = destroy_vec_on_exit A \<and>
      global_to_local_map A' = global_to_local_map B \<and>
      global_to_local_map B' = global_to_local_map A \<and>
      array_is_present A' = array_is_present B \<and>
      array_is_present B' = array_is_present A \<and>
      local_form A' = local_form B \<and> local_form B' = local_form A \<and>
      values_rw A' = values_rw B \<and> values_rw B' = values_rw A) \<and>
     (first_cached A' = first_cached A \<and> first_cached B' = first_cached B \<and>
      last_cached A' = last_cached A \<and> last_cached B' = last_cached B \<and>
      local_size_cached A' = local_size_cached A \<and>
      local_size_cached B' = local_size_cached B \<and>
      read_only_values A' = read_only_values A \<and>
      read_only_values B' = read_only_values B \<and>
      values_manually_retrieved A' = values_manually_retrieved A \<and>
      values_manually_retrieved B' = values_manually_retrieved B \<and>
      values_read_only A' = values_read_only A \<and>
      values_read_only B' = values_read_only B) \<and>
     (array_is_present A \<and> is_initialized A \<longrightarrow>
        array_is_present B' \<and> vec B' = vec A \<and>
        first_local_index cfg b B' = Inr (first_cached B) \<and>
        last_local_index cfg b B' = Inr (last_cached B))"
  by (auto simp: swap_def NumericVector_swap_def first_local_index_def last_local_index_def
      libmesh_assert_def)

theorem swap_frame_witness:
  "array_is_present cached_vec \<and> is_initialized cached_vec \<and>
   vec (snd (swap (cached_vec, PetscVector_ctor AUTOMATIC))) = VecObj 0 \<and>
   last_local_index cfg_dbg cached_petsc (snd (swap (cached_vec, PetscVector_ctor AUTOMATIC)))
     = Inr 0 \<and>
   petsc_ownership_range (VecObj 0) cached_petsc = Inr (0, 2) \<and>
   last_cached cached_vec = 2 \<and>
   last_cached (fst (swap (cached_vec, PetscVector_ctor AUTOMATIC))) = 2 \<and>
   \<not> array_is_present (fst (swap (cached_vec, PetscVector_ctor AUTOMATIC)))"
proof -
  let ?A' = "fst (swap (cached_vec, PetscVector_ctor AUTOMATIC))"
  let ?B' = "snd (swap (cached_vec, PetscVector_ctor AUTOMATIC))"
  have s: "swap (cached_vec, PetscVector_ctor AUTOMATIC) = (?A', ?B')" by simp
  have p: "array_is_present cached_vec" "is_initialized cached_vec"
    "last_cached cached_vec = 2"
    "last_cached (PetscVector_ctor AUTOMATIC :: 32 word PetscVector) = 0"
    "\<not> array_is_present (PetscVector_ctor AUTOMATIC :: 32 word PetscVector)"
    "vec cached_vec = VecObj 0"
    by (simp_all add: eval_defs ex_defs)
  have r: "petsc_ownership_range (VecObj 0) cached_petsc = Inr (0, 2)"
    by (simp add: eval_defs ex_defs)
  from swap_frame [OF s, of cfg_dbg cached_petsc] p r show ?thesis by simp
qed

text \<open>
  C10. In an optimized build, \<^verbatim>\<open>size()\<close> on a vector that is not initialized returns 0
  instead of failing; in a build with assertions the same call fails an assertion.
\<close>

theorem size_uninitialized:
  "\<not> is_initialized v \<Longrightarrow>
     (ndebug cfg \<longrightarrow> size_vec cfg b v = Inr 0) \<and>
     (\<not> ndebug cfg \<longrightarrow> size_vec cfg b v = Inl AssertionFailure)"
  by (simp add: size_vec_def libmesh_assert_def)

theorem size_uninitialized_witness:
  "\<not> is_initialized (PetscVector_ctor AUTOMATIC :: 32 word PetscVector) \<and>
   size_vec cfg_opt petsc0 (PetscVector_ctor AUTOMATIC :: 32 word PetscVector) = Inr 0 \<and>
   size_vec cfg_dbg petsc0 (PetscVector_ctor AUTOMATIC :: 32 word PetscVector)
     = Inl AssertionFailure"
  using size_uninitialized [of "PetscVector_ctor AUTOMATIC :: 32 word PetscVector" cfg_opt petsc0]
    size_uninitialized [of "PetscVector_ctor AUTOMATIC :: 32 word PetscVector" cfg_dbg petsc0]
  by (simp add: PetscVector_ctor_def cfg_opt_def cfg_dbg_def)

end
